theory Spec2Isabelle
  imports Main "HOL-Library.Word"
begin

section \<open>IEEE-754 binary64 values\<close>

text \<open>
  The C++ type \<^verbatim>\<open>double\<close> of \<^verbatim>\<open>sql/gis/rtree_support.cc\<close>. \<open>Zero s\<close> is the zero of
  sign \<open>s\<close> and \<open>Finite s m e\<close> stands for \<open>(-1)^s * m * 2^e\<close>; \<open>s = True\<close> is the
  minus sign. Values that arithmetic or decoding produce are in canonical form:
  \<open>0 < m < 2^53\<close>, \<open>-1074 \<le> e \<le> 971\<close>, and \<open>2^52 \<le> m\<close> unless \<open>e = -1074\<close> (a
  subnormal number). All NaN bit patterns are one value: the code only ever tests
  \<^verbatim>\<open>std::isnan\<close> and compares. Arithmetic rounds to nearest, ties to even (the default
  mode), each operation rounded to binary64 on its own.
\<close>

datatype double = NaN | Infinity bool | Zero bool | Finite bool int int

text \<open>The number of binary digits of a positive integer, in steps of 64, 8 and 1 bits.\<close>

function bit_length :: "int \<Rightarrow> nat" where
  "bit_length n =
     (if n \<le> 0 then 0
      else if 18446744073709551616 \<le> n then 64 + bit_length (n div 18446744073709551616)
      else if 256 \<le> n then 8 + bit_length (n div 256)
      else Suc (bit_length (n div 2)))"
  by pat_completeness auto
termination
  by (relation "measure nat") (auto intro: int_div_less_self)

declare bit_length.simps [simp del]

text \<open>Rounding of the exact value \<open>(-1)^s * m * 2^e\<close> to binary64.\<close>

definition round_nearest_even :: "bool \<Rightarrow> int \<Rightarrow> int \<Rightarrow> double" where
  "round_nearest_even s m e =
     (if m \<le> 0 then Zero s
      else
        let e' = max (e + int (bit_length m) - 53) (- 1074) in
        if e' \<le> e then
          (if e' > 971 then Infinity s else Finite s (m * 2 ^ nat (e - e')) e')
        else
          (let sh = nat (e' - e);
               q = m div 2 ^ sh;
               r = m mod 2 ^ sh;
               half = 2 ^ (sh - 1);
               q' = (if r > half \<or> (r = half \<and> odd q) then q + 1 else q);
               q'' = (if q' = 2 ^ 53 then 2 ^ 52 else q');
               e'' = (if q' = 2 ^ 53 then e' + 1 else e')
           in if q'' = 0 then Zero s
              else if e'' > 971 then Infinity s
              else Finite s q'' e''))"

definition signed_mant :: "bool \<Rightarrow> int \<Rightarrow> int" where
  "signed_mant s m = (if s then - m else m)"

text \<open>The integer \<open>(-1)^s * m * 2^(e - k)\<close>, for \<open>k \<le> e\<close>.\<close>

definition scaled :: "bool \<Rightarrow> int \<Rightarrow> int \<Rightarrow> int \<Rightarrow> int" where
  "scaled s m e k = signed_mant s m * 2 ^ nat (e - k)"

subsection \<open>Comparisons: every comparison with a NaN is false\<close>

fun d_lt :: "double \<Rightarrow> double \<Rightarrow> bool" where
  "d_lt NaN _ = False"
| "d_lt _ NaN = False"
| "d_lt (Infinity s) (Infinity t) = (s \<and> \<not> t)"
| "d_lt (Infinity s) _ = s"
| "d_lt _ (Infinity t) = (\<not> t)"
| "d_lt (Zero _) (Zero _) = False"
| "d_lt (Zero _) (Finite t n f) = (0 < signed_mant t n)"
| "d_lt (Finite s m e) (Zero _) = (signed_mant s m < 0)"
| "d_lt (Finite s m e) (Finite t n f) =
     (scaled s m e (min e f) < scaled t n f (min e f))"

fun d_eq :: "double \<Rightarrow> double \<Rightarrow> bool" where
  "d_eq NaN _ = False"
| "d_eq _ NaN = False"
| "d_eq (Infinity s) (Infinity t) = (s = t)"
| "d_eq (Infinity s) _ = False"
| "d_eq _ (Infinity t) = False"
| "d_eq (Zero _) (Zero _) = True"
| "d_eq (Zero _) (Finite t n f) = (signed_mant t n = 0)"
| "d_eq (Finite s m e) (Zero _) = (signed_mant s m = 0)"
| "d_eq (Finite s m e) (Finite t n f) =
     (scaled s m e (min e f) = scaled t n f (min e f))"

definition d_le :: "double \<Rightarrow> double \<Rightarrow> bool" where
  "d_le x y = (d_lt x y \<or> d_eq x y)"

definition d_gt :: "double \<Rightarrow> double \<Rightarrow> bool" where
  "d_gt x y = d_lt y x"

definition d_ge :: "double \<Rightarrow> double \<Rightarrow> bool" where
  "d_ge x y = d_le y x"

text \<open>C++ \<^verbatim>\<open>x != y\<close> is the negation of \<^verbatim>\<open>x == y\<close>: true when either side is NaN.\<close>

definition d_ne :: "double \<Rightarrow> double \<Rightarrow> bool" where
  "d_ne x y = (\<not> d_eq x y)"

subsection \<open>Arithmetic\<close>

fun d_add :: "double \<Rightarrow> double \<Rightarrow> double" where
  "d_add NaN _ = NaN"
| "d_add _ NaN = NaN"
| "d_add (Infinity s) (Infinity t) = (if s = t then Infinity s else NaN)"
| "d_add (Infinity s) _ = Infinity s"
| "d_add _ (Infinity t) = Infinity t"
| "d_add (Zero s) (Zero t) = Zero (s \<and> t)"
| "d_add (Zero _) (Finite t n f) = Finite t n f"
| "d_add (Finite s m e) (Zero _) = Finite s m e"
| "d_add (Finite s m e) (Finite t n f) =
     (let k = min e f; z = scaled s m e k + scaled t n f k in
      if z = 0 then Zero (s \<and> t) else round_nearest_even (z < 0) \<bar>z\<bar> k)"

fun d_neg :: "double \<Rightarrow> double" where
  "d_neg NaN = NaN"
| "d_neg (Infinity s) = Infinity (\<not> s)"
| "d_neg (Zero s) = Zero (\<not> s)"
| "d_neg (Finite s m e) = Finite (\<not> s) m e"

definition d_sub :: "double \<Rightarrow> double \<Rightarrow> double" where
  "d_sub x y = d_add x (d_neg y)"

fun d_mul :: "double \<Rightarrow> double \<Rightarrow> double" where
  "d_mul NaN _ = NaN"
| "d_mul _ NaN = NaN"
| "d_mul (Infinity s) (Infinity t) = Infinity (s \<noteq> t)"
| "d_mul (Infinity s) (Zero t) = NaN"
| "d_mul (Zero s) (Infinity t) = NaN"
| "d_mul (Infinity s) (Finite t n f) = Infinity (s \<noteq> t)"
| "d_mul (Finite s m e) (Infinity t) = Infinity (s \<noteq> t)"
| "d_mul (Zero s) (Zero t) = Zero (s \<noteq> t)"
| "d_mul (Zero s) (Finite t n f) = Zero (s \<noteq> t)"
| "d_mul (Finite s m e) (Zero t) = Zero (s \<noteq> t)"
| "d_mul (Finite s m e) (Finite t n f) = round_nearest_even (s \<noteq> t) \<bar>m * n\<bar> (e + f)"

text \<open>Conversion of an integer literal, as in \<^verbatim>\<open>area == 0\<close> and \<^verbatim>\<open>return (0)\<close>.\<close>

definition d_of_int :: "int \<Rightarrow> double" where
  "d_of_int i = round_nearest_even (i < 0) \<bar>i\<bar> 0"

subsection \<open>The standard library on doubles\<close>

text \<open>
  \<^verbatim>\<open>std::min(a, b)\<close> is \<^verbatim>\<open>(b < a) ? b : a\<close> and \<^verbatim>\<open>std::max(a, b)\<close> is
  \<^verbatim>\<open>(a < b) ? b : a\<close>: the first argument wins on a tie and whenever a NaN is involved.
\<close>

definition std_min :: "double \<Rightarrow> double \<Rightarrow> double" where
  "std_min a b = (if d_lt b a then b else a)"

definition std_max :: "double \<Rightarrow> double \<Rightarrow> double" where
  "std_max a b = (if d_lt a b then b else a)"

fun isnan :: "double \<Rightarrow> bool" where
  "isnan NaN = True"
| "isnan _ = False"

fun isfinite :: "double \<Rightarrow> bool" where
  "isfinite (Finite _ _ _) = True"
| "isfinite (Zero _) = True"
| "isfinite _ = False"

text \<open>\<^verbatim>\<open>std::numeric_limits<double>::max()\<close> and \<^verbatim>\<open>lowest()\<close>.\<close>

definition DBL_MAX :: double where
  "DBL_MAX = Finite False (2 ^ 53 - 1) 971"

definition DBL_LOWEST :: double where
  "DBL_LOWEST = Finite True (2 ^ 53 - 1) 971"

text \<open>The literals \<^verbatim>\<open>1.0\<close> and \<^verbatim>\<open>0.001\<close> (bits \<^verbatim>\<open>0x3F50624DD2F1A9FC\<close>).\<close>

definition d_one :: double where
  "d_one = Finite False (2 ^ 52) (- 52)"

definition line_mbr_weights :: double where
  "line_mbr_weights = Finite False 4611686018427388 (- 62)"

section \<open>Builds and outcomes\<close>

text \<open>
  \<^verbatim>\<open>DBUG_ASSERT\<close> aborts the server in a debug build and is compiled away in a release
  build. Every function below takes the build (\<open>dbug = True\<close> for a debug build) and
  returns an outcome: a value, an abort at a failed assertion, or undefined behaviour
  (a read past the end of a byte buffer).
\<close>

datatype 'a outcome = Return 'a | Assert_Failed | Undefined_Behaviour

definition DBUG_ASSERT :: "bool \<Rightarrow> bool \<Rightarrow> 'a outcome \<Rightarrow> 'a outcome" where
  "DBUG_ASSERT dbug c k = (if dbug \<and> \<not> c then Assert_Failed else k)"

section \<open>Data model\<close>

text \<open>
  \<^verbatim>\<open>dd::Spatial_reference_system\<close> is declared outside the files at hand; the functions
  only call the methods below, so a reference system is the record of what they return.
  A null \<^verbatim>\<open>srs\<close> pointer is \<open>None\<close>.
\<close>

record spatial_reference_system =
  srs_id :: "32 word"
  is_cartesian :: bool
  is_geographic :: bool
  semi_major_axis :: double
  semi_minor_axis :: double
  to_radians :: "double \<Rightarrow> double"
  from_radians :: "double \<Rightarrow> double"

text \<open>
  \<^verbatim>\<open>rtr_mbr_t\<close>; the \<^verbatim>\<open>double*\<close> rectangles of \<^verbatim>\<open>mbr_join\<close>, \<^verbatim>\<open>mbr_join_area\<close> and
  \<^verbatim>\<open>get_mbr_from_store\<close> have the same layout: index 0 is \<open>xmin\<close>, 1 is \<open>xmax\<close>,
  2 is \<open>ymin\<close>, 3 is \<open>ymax\<close>.
\<close>

record rtr_mbr_t =
  xmin :: double
  xmax :: double
  ymin :: double
  ymax :: double

section \<open>Predicates\<close>

text \<open>
  \<^verbatim>\<open>mbr_intersect_cmp\<close>. Its assertion "contains the old return value of the function".
\<close>

definition old_intersect_value :: "rtr_mbr_t \<Rightarrow> rtr_mbr_t \<Rightarrow> bool" where
  "old_intersect_value a b =
     ((d_le (xmin b) (xmax a) \<or> d_ge (xmax b) (xmin a)) \<and>
      (d_le (ymin b) (ymax a) \<or> d_ge (ymax b) (ymin a)))"

definition mbr_intersect_cmp ::
  "bool \<Rightarrow> spatial_reference_system option \<Rightarrow> rtr_mbr_t \<Rightarrow> rtr_mbr_t \<Rightarrow> bool outcome" where
  "mbr_intersect_cmp dbug srs a b =
     DBUG_ASSERT dbug (old_intersect_value a b) (Return True)"

definition mbr_disjoint_cmp ::
  "bool \<Rightarrow> spatial_reference_system option \<Rightarrow> rtr_mbr_t \<Rightarrow> rtr_mbr_t \<Rightarrow> bool outcome" where
  "mbr_disjoint_cmp dbug srs a b =
     (case mbr_intersect_cmp dbug srs a b of
        Return r \<Rightarrow> Return (\<not> r)
      | Assert_Failed \<Rightarrow> Assert_Failed
      | Undefined_Behaviour \<Rightarrow> Undefined_Behaviour)"

text \<open>
  \<^verbatim>\<open>gis::Cartesian_box\<close> and \<^verbatim>\<open>gis::Geographic_box\<close>: a minimum and a maximum corner, each
  a point \<open>(x, y)\<close>. The two C++ types are the two constructors, so that one parameter
  can stand for an overloaded library function.
\<close>

type_synonym point = "double \<times> double"

datatype box = Cartesian_box point point | Geographic_box point point

fun min_corner :: "box \<Rightarrow> point" where
  "min_corner (Cartesian_box lo hi) = lo"
| "min_corner (Geographic_box lo hi) = lo"

fun max_corner :: "box \<Rightarrow> point" where
  "max_corner (Cartesian_box lo hi) = hi"
| "max_corner (Geographic_box lo hi) = hi"

text \<open>
  The catch-all handler \<^verbatim>\<open>catch (...) { DBUG_ASSERT(false); }\<close>: a library call that
  throws is \<open>None\<close>, and the handler aborts a debug build and otherwise goes on with the
  value the function had before the \<^verbatim>\<open>try\<close> block.
\<close>

definition catch_all :: "bool \<Rightarrow> 'a \<Rightarrow> 'a outcome" where
  "catch_all dbug dflt = DBUG_ASSERT dbug False (Return dflt)"

text \<open>
  \<^verbatim>\<open>mbr_within_cmp\<close>. The functor \<^verbatim>\<open>gis::Covered_by\<close> is defined outside the files at
  hand: it is the parameter \<open>covered_by\<close>, given the two axis lengths it is constructed
  with and the two boxes it is applied to.
\<close>

definition mbr_within_cmp ::
  "bool \<Rightarrow> (double \<Rightarrow> double \<Rightarrow> box \<Rightarrow> box \<Rightarrow> bool option) \<Rightarrow>
   spatial_reference_system option \<Rightarrow> rtr_mbr_t \<Rightarrow> rtr_mbr_t \<Rightarrow> bool outcome" where
  "mbr_within_cmp dbug covered_by srs a b =
     (let invert =
            (d_gt (xmin a) (xmax a) \<and> d_gt (ymin a) (ymax a) \<and>
             \<not> (d_eq (xmin a) (xmin b) \<and> d_eq (ymin a) (ymin b) \<and>
                d_eq (xmax a) (xmax b) \<and> d_eq (ymax a) (ymax b)));
          a_xmin = std_min (xmin a) (xmax a);
          a_ymin = std_min (ymin a) (ymax a);
          a_xmax = std_max (xmin a) (xmax a);
          a_ymax = std_max (ymin a) (ymax a);
          b_xmin = std_min (xmin b) (xmax b);
          b_ymin = std_min (ymin b) (ymax b);
          b_xmax = std_max (xmin b) (xmax b);
          b_ymax = std_max (ymin b) (ymax b);
          functor = covered_by
            (case srs of None \<Rightarrow> Zero False | Some s \<Rightarrow> semi_major_axis s)
            (case srs of None \<Rightarrow> Zero False | Some s \<Rightarrow> semi_minor_axis s);
          finish = (\<lambda>thrown_or_result.
            case thrown_or_result of
              Some result \<Rightarrow> Return (if invert then \<not> result else result)
            | None \<Rightarrow> catch_all dbug False);
          cartesian = finish
            (functor (Cartesian_box (a_xmin, a_ymin) (a_xmax, a_ymax))
                     (Cartesian_box (b_xmin, b_ymin) (b_xmax, b_ymax)))
      in case srs of
           None \<Rightarrow> cartesian
         | Some s \<Rightarrow>
             if is_cartesian s then cartesian
             else DBUG_ASSERT dbug (is_geographic s)
               (finish
                 (functor
                   (Geographic_box (to_radians s a_xmin, to_radians s a_ymin)
                                   (to_radians s a_xmax, to_radians s a_ymax))
                   (Geographic_box (to_radians s b_xmin, to_radians s b_ymin)
                                   (to_radians s b_xmax, to_radians s b_ymax)))))"

section \<open>Merge and area\<close>

text \<open>
  \<^verbatim>\<open>mbr_join\<close>: the result is the content of the array \<^verbatim>\<open>a\<close> at return. \<^verbatim>\<open>bg::expand\<close>
  is the parameter \<open>expand\<close>, returning the expanded first box.
\<close>

definition box_to_mbr :: "(double \<Rightarrow> double) \<Rightarrow> box \<Rightarrow> rtr_mbr_t" where
  "box_to_mbr conv bx =
     \<lparr>xmin = conv (fst (min_corner bx)), xmax = conv (fst (max_corner bx)),
      ymin = conv (snd (min_corner bx)), ymax = conv (snd (max_corner bx))\<rparr>"

definition cartesian_box_of :: "rtr_mbr_t \<Rightarrow> box" where
  "cartesian_box_of a = Cartesian_box (xmin a, ymin a) (xmax a, ymax a)"

definition geographic_box_of :: "spatial_reference_system \<Rightarrow> rtr_mbr_t \<Rightarrow> box" where
  "geographic_box_of s a =
     Geographic_box (to_radians s (xmin a), to_radians s (ymin a))
                    (to_radians s (xmax a), to_radians s (ymax a))"

definition mbr_join ::
  "bool \<Rightarrow> (box \<Rightarrow> box \<Rightarrow> box option) \<Rightarrow> spatial_reference_system option \<Rightarrow>
   rtr_mbr_t \<Rightarrow> rtr_mbr_t \<Rightarrow> int \<Rightarrow> rtr_mbr_t outcome" where
  "mbr_join dbug expand srs a b n_dim =
     DBUG_ASSERT dbug (n_dim = 2)
       (let cartesian =
              (case expand (cartesian_box_of a) (cartesian_box_of b) of
                 Some a_box \<Rightarrow> Return (box_to_mbr (\<lambda>d. d) a_box)
               | None \<Rightarrow> catch_all dbug a)
        in case srs of
             None \<Rightarrow> cartesian
           | Some s \<Rightarrow>
               if is_cartesian s then cartesian
               else DBUG_ASSERT dbug (is_geographic s)
                 (case expand (geographic_box_of s a) (geographic_box_of s b) of
                    Some a_box \<Rightarrow> Return (box_to_mbr (from_radians s) a_box)
                  | None \<Rightarrow> catch_all dbug a))"

text \<open>
  \<^verbatim>\<open>mbr_join_area\<close>. \<^verbatim>\<open>bg::area\<close> is the parameter \<open>area\<close>; its first argument is the
  spheroid of the geographic strategy (semi-major and semi-minor axis), \<open>None\<close> for the
  default strategy of a Cartesian box.
\<close>

definition mbr_join_area ::
  "bool \<Rightarrow> (box \<Rightarrow> box \<Rightarrow> box option) \<Rightarrow> ((double \<times> double) option \<Rightarrow> box \<Rightarrow> double option) \<Rightarrow>
   spatial_reference_system option \<Rightarrow> rtr_mbr_t \<Rightarrow> rtr_mbr_t \<Rightarrow> int \<Rightarrow> double outcome" where
  "mbr_join_area dbug expand area srs a b n_dim =
     DBUG_ASSERT dbug (n_dim = 2)
       (let finish = (\<lambda>area. Return (if \<not> isfinite area then DBL_MAX else area));
            handler = (\<lambda>thrown_or_area.
              case thrown_or_area of
                Some ar \<Rightarrow> finish ar
              | None \<Rightarrow> DBUG_ASSERT dbug False (finish (Zero False)));
            cartesian = handler
              (case expand (cartesian_box_of a) (cartesian_box_of b) of
                 Some a_box \<Rightarrow> area None a_box
               | None \<Rightarrow> None)
        in case srs of
             None \<Rightarrow> cartesian
           | Some s \<Rightarrow>
               if is_cartesian s then cartesian
               else DBUG_ASSERT dbug (is_geographic s)
                 (handler
                   (case expand (geographic_box_of s a) (geographic_box_of s b) of
                      Some a_box \<Rightarrow> area (Some (semi_major_axis s, semi_minor_axis s)) a_box
                    | None \<Rightarrow> None)))"

section \<open>Raw coordinate keys\<close>

text \<open>
  Modelled from the spec: \<^verbatim>\<open>doubleget\<close> and \<^verbatim>\<open>float8get\<close> of \<^verbatim>\<open>my_byteorder.h\<close>, which is
  not among the files at hand. A raw key holds 8-byte IEEE-754 values in platform byte
  order; both macros read the little-endian encoding (\<^verbatim>\<open>float8get\<close> is the branch for
  big-endian hosts). A read that leaves the buffer is undefined behaviour: \<open>None\<close>.
\<close>

type_synonym uchar = "8 word"

definition le_bytes_to_int :: "uchar list \<Rightarrow> int" where
  "le_bytes_to_int bs = foldr (\<lambda>b acc. uint b + 256 * acc) bs 0"

definition double_of_bits :: "int \<Rightarrow> double" where
  "double_of_bits w =
     (let s = ((w div 2 ^ 63) mod 2 = 1);
          ex = (w div 2 ^ 52) mod 2048;
          fr = w mod 2 ^ 52
      in if ex = 2047 then (if fr = 0 then Infinity s else NaN)
         else if ex = 0 then (if fr = 0 then Zero s else Finite s fr (- 1074))
         else Finite s (2 ^ 52 + fr) (ex - 1075))"

definition double_at :: "uchar list \<Rightarrow> nat \<Rightarrow> double" where
  "double_at p off = double_of_bits (le_bytes_to_int (take 8 (drop off p)))"

definition doubleget :: "uchar list \<Rightarrow> nat \<Rightarrow> double option" where
  "doubleget p off = (if off + 8 \<le> length p then Some (double_at p off) else None)"

text \<open>
  \<^verbatim>\<open>rtree_area_increase\<close>. The pointers \<^verbatim>\<open>mbr_a\<close> and \<^verbatim>\<open>mbr_b\<close> advance together, so
  they are the two buffers and one offset; \<^verbatim>\<open>keyseg_len\<close> is \<open>2 * sizeof(double) = 16\<close>.
  The result is the returned double and the value stored through \<^verbatim>\<open>ab_area\<close>.
\<close>

function area_increase_loop ::
  "uchar list \<Rightarrow> uchar list \<Rightarrow> int \<Rightarrow> nat \<Rightarrow> double \<Rightarrow> double \<Rightarrow> double \<Rightarrow>
   (double \<times> double \<times> double) outcome" where
  "area_increase_loop mbr_a mbr_b key_len off a_area loc_ab_area data_round =
     (if key_len > 0 then
        (case doubleget mbr_a off of None \<Rightarrow> Undefined_Behaviour | Some amin \<Rightarrow>
         case doubleget mbr_b off of None \<Rightarrow> Undefined_Behaviour | Some bmin \<Rightarrow>
         case doubleget mbr_a (off + 8) of None \<Rightarrow> Undefined_Behaviour | Some amax \<Rightarrow>
         case doubleget mbr_b (off + 8) of None \<Rightarrow> Undefined_Behaviour | Some bmax \<Rightarrow>
           let area = d_sub amax amin;
               a_area = (if d_eq area (d_of_int 0) then d_mul a_area line_mbr_weights
                         else d_mul a_area area);
               area = d_sub (std_max amax bmax) (std_min amin bmin);
               loc_ab_area = (if d_eq area (d_of_int 0) then d_mul loc_ab_area line_mbr_weights
                              else d_mul loc_ab_area area);
               data_round =
                 (if d_eq loc_ab_area a_area then
                    (if d_lt bmin amin \<or> d_gt bmax amax then
                       d_mul data_round
                         (d_add (d_sub (std_max amax bmax) amax)
                                (d_sub amin (std_min amin bmin)))
                     else d_mul data_round area)
                  else data_round)
           in area_increase_loop mbr_a mbr_b (key_len - 16) (off + 16)
                a_area loc_ab_area data_round)
      else Return (a_area, loc_ab_area, data_round))"
  by pat_completeness auto
termination
  by (relation "measure (\<lambda>(mbr_a, mbr_b, key_len, rest). nat key_len)") auto

declare area_increase_loop.simps [simp del]

definition rtree_area_increase ::
  "spatial_reference_system option \<Rightarrow> uchar list \<Rightarrow> uchar list \<Rightarrow> int \<Rightarrow>
   (double \<times> double) outcome" where
  "rtree_area_increase srs mbr_a mbr_b mbr_len =
     (case area_increase_loop mbr_a mbr_b mbr_len 0 d_one d_one d_one of
        Return (a_area, loc_ab_area, data_round) \<Rightarrow>
          if d_eq loc_ab_area a_area \<and> d_ne data_round d_one
          then Return (data_round, loc_ab_area)
          else Return (d_sub loc_ab_area a_area, loc_ab_area)
      | Assert_Failed \<Rightarrow> Assert_Failed
      | Undefined_Behaviour \<Rightarrow> Undefined_Behaviour)"

text \<open>\<^verbatim>\<open>rtree_area_overlapping\<close>, with its return from inside the loop.\<close>

function area_overlapping_loop ::
  "uchar list \<Rightarrow> uchar list \<Rightarrow> int \<Rightarrow> nat \<Rightarrow> double \<Rightarrow> double outcome" where
  "area_overlapping_loop mbr_a mbr_b key_len off area =
     (if key_len > 0 then
        (case doubleget mbr_a off of None \<Rightarrow> Undefined_Behaviour | Some amin \<Rightarrow>
         case doubleget mbr_b off of None \<Rightarrow> Undefined_Behaviour | Some bmin \<Rightarrow>
         case doubleget mbr_a (off + 8) of None \<Rightarrow> Undefined_Behaviour | Some amax \<Rightarrow>
         case doubleget mbr_b (off + 8) of None \<Rightarrow> Undefined_Behaviour | Some bmax \<Rightarrow>
           let amin = std_max amin bmin;
               amax = std_min amax bmax
           in if d_gt amin amax then Return (d_of_int 0)
              else area_overlapping_loop mbr_a mbr_b (key_len - 16) (off + 16)
                     (d_mul area (d_sub amax amin)))
      else Return area)"
  by pat_completeness auto
termination
  by (relation "measure (\<lambda>(mbr_a, mbr_b, key_len, rest). nat key_len)") auto

declare area_overlapping_loop.simps [simp del]

definition rtree_area_overlapping ::
  "spatial_reference_system option \<Rightarrow> uchar list \<Rightarrow> uchar list \<Rightarrow> int \<Rightarrow> double outcome" where
  "rtree_area_overlapping srs mbr_a mbr_b mbr_len =
     area_overlapping_loop mbr_a mbr_b mbr_len 0 d_one"

section \<open>Rectangle extraction from a stored record\<close>

text \<open>
  Modelled from the spec: \<^verbatim>\<open>uint4korr\<close> of \<^verbatim>\<open>my_byteorder.h\<close>, which is not among the
  files at hand. The first 4 bytes of a record hold the reference-system identifier, low
  byte first; a record shorter than that cannot be read.
\<close>

definition uint4korr :: "uchar list \<Rightarrow> 32 word option" where
  "uint4korr store =
     (if 4 \<le> length store then Some (word_of_int (le_bytes_to_int (take 4 store))) else None)"

datatype box_type = Cartesian_type | Geographic_type

text \<open>
  \<^verbatim>\<open>get_mbr_from_store\<close>. The parser \<^verbatim>\<open>gis::parse_wkb\<close> and \<^verbatim>\<open>gis::box_envelope\<close> are
  parameters. \<open>parse_wkb\<close> gets the reference system, the bytes after the identifier, the
  length \<^verbatim>\<open>size - sizeof(gis::srid_t)\<close> computed in \<^verbatim>\<open>size_t\<close>, and the flag; it throws
  (\<open>None\<close>), returns a null pointer (\<open>Some None\<close>) or a geometry. \<open>box_envelope\<close> gets the
  type of the box it fills. The arguments \<open>mbr\<close> and \<open>srid\<close> are what the two output
  pointers point to at the call, \<open>srid = None\<close> for a null pointer; the result is the
  status with their content at return.
\<close>

definition full_domain :: rtr_mbr_t where
  "full_domain = \<lparr>xmin = DBL_LOWEST, xmax = DBL_MAX, ymin = DBL_LOWEST, ymax = DBL_MAX\<rparr>"

definition get_mbr_from_store ::
  "bool \<Rightarrow>
   (spatial_reference_system option \<Rightarrow> uchar list \<Rightarrow> 64 word \<Rightarrow> bool \<Rightarrow> 'g option option) \<Rightarrow>
   ('g \<Rightarrow> spatial_reference_system option \<Rightarrow> box_type \<Rightarrow> box option) \<Rightarrow>
   spatial_reference_system option \<Rightarrow> uchar list \<Rightarrow> 32 word \<Rightarrow> nat \<Rightarrow> rtr_mbr_t \<Rightarrow>
   32 word option \<Rightarrow> (int \<times> rtr_mbr_t \<times> 32 word option) outcome" where
  "get_mbr_from_store dbug parse_wkb box_envelope srs store store_size n_dims mbr srid =
     DBUG_ASSERT dbug (n_dims = 2)
       (if (dbug \<and> srs \<noteq> None \<or> srid \<noteq> None) \<and> uint4korr store = None
        then Undefined_Behaviour
        else
          DBUG_ASSERT dbug
            (case srs of None \<Rightarrow> True | Some s \<Rightarrow> Some (srs_id s) = uint4korr store)
            (let srid = (if srid \<noteq> None then uint4korr store else srid);
                 check = (\<lambda>mbr.
                   if isnan (xmin mbr) then
                     DBUG_ASSERT dbug (isnan (xmax mbr) \<and> isnan (ymin mbr) \<and> isnan (ymax mbr))
                       (DBUG_ASSERT dbug
                          (d_le (xmin full_domain) (xmax full_domain) \<and>
                           d_le (ymin full_domain) (ymax full_domain))
                          (Return (0, full_domain, srid)))
                   else
                     DBUG_ASSERT dbug
                       (d_le (xmin mbr) (xmax mbr) \<and> d_le (ymin mbr) (ymax mbr))
                       (Return (0, mbr, srid)))
             in case parse_wkb srs (drop 4 store) (ucast store_size - 4) True of
                  None \<Rightarrow> catch_all dbug (- 1, mbr, srid)
                | Some None \<Rightarrow> Return (- 1, mbr, srid)
                | Some (Some g) \<Rightarrow>
                    (let cartesian =
                           (case box_envelope g srs Cartesian_type of
                              None \<Rightarrow> catch_all dbug (- 1, mbr, srid)
                            | Some bx \<Rightarrow> check (box_to_mbr (\<lambda>d. d) bx))
                     in case srs of
                          None \<Rightarrow> cartesian
                        | Some s \<Rightarrow>
                            if is_cartesian s then cartesian
                            else DBUG_ASSERT dbug (is_geographic s)
                              (case box_envelope g srs Geographic_type of
                                 None \<Rightarrow> catch_all dbug (- 1, mbr, srid)
                               | Some bx \<Rightarrow> check (box_to_mbr (from_radians s) bx)))))"

section \<open>The raw-key metrics as the specification words them\<close>

text \<open>
  A key of \<open>L\<close> bytes is read as \<open>L div 16\<close> dimension pairs \<open>(min, max)\<close>. The two
  definitions below follow the prose of the specification, over such lists of pairs; the
  theorems compare them with the loops above.
\<close>

definition raw_key_pairs :: "uchar list \<Rightarrow> (double \<times> double) list" where
  "raw_key_pairs key =
     map (\<lambda>i. (double_at key (16 * i), double_at key (16 * i + 8))) [0 ..< length key div 16]"

definition span_or_weight :: "double \<Rightarrow> double" where
  "span_or_weight span = (if d_eq span (d_of_int 0) then line_mbr_weights else span)"

fun spec_increase_step ::
  "double \<times> double \<times> double \<Rightarrow> (double \<times> double) \<times> (double \<times> double) \<Rightarrow>
   double \<times> double \<times> double" where
  "spec_increase_step (aArea, unionArea, round_acc) ((amin, amax), (bmin, bmax)) =
     (let aSpan = d_sub amax amin;
          unionSpan = d_sub (std_max amax bmax) (std_min amin bmin);
          aArea' = d_mul aArea (span_or_weight aSpan);
          unionArea' = d_mul unionArea (span_or_weight unionSpan);
          exceeds = (d_lt bmin amin \<or> d_gt bmax amax);
          factor = (if exceeds
                    then d_add (d_sub (std_max amax bmax) amax) (d_sub amin (std_min amin bmin))
                    else unionSpan)
      in (aArea', unionArea',
          if d_eq unionArea' aArea' then d_mul round_acc factor else round_acc))"

definition spec_area_increase ::
  "(double \<times> double) list \<Rightarrow> (double \<times> double) list \<Rightarrow> double \<times> double" where
  "spec_area_increase ka kb =
     (case foldl spec_increase_step (d_one, d_one, d_one) (zip ka kb) of
        (aArea, unionArea, round_acc) \<Rightarrow>
          (if d_eq unionArea aArea \<and> d_ne round_acc d_one then round_acc else d_sub unionArea aArea,
           unionArea))"

definition overlap_interval :: "(double \<times> double) \<times> (double \<times> double) \<Rightarrow> double \<times> double" where
  "overlap_interval ab =
     (case ab of ((amin, amax), (bmin, bmax)) \<Rightarrow> (std_max amin bmin, std_min amax bmax))"

definition spans_product :: "(double \<times> double) list \<Rightarrow> double" where
  "spans_product ivs = foldl (\<lambda>acc (lo, hi). d_mul acc (d_sub hi lo)) d_one ivs"

definition spec_overlap_area ::
  "(double \<times> double) list \<Rightarrow> (double \<times> double) list \<Rightarrow> double" where
  "spec_overlap_area ka kb =
     (let ivs = map overlap_interval (zip ka kb)
      in if list_ex (\<lambda>(lo, hi). d_gt lo hi) ivs then d_of_int 0 else spans_product ivs)"

subsection \<open>Concrete keys\<close>

text \<open>
  The little-endian encodings of the keys \<open>(0, 10, 0, 10)\<close> and \<open>(5, 15, 5, 15)\<close>, that
  is the rectangles \<open>[0,10] \<times> [0,10]\<close> and \<open>[5,15] \<times> [5,15]\<close>: \<open>10.0\<close> is
  \<^verbatim>\<open>0x4024000000000000\<close>, \<open>5.0\<close> is \<^verbatim>\<open>0x4014000000000000\<close>, \<open>15.0\<close> is
  \<^verbatim>\<open>0x402E000000000000\<close>.
\<close>

definition key_0_10_0_10 :: "uchar list" where
  "key_0_10_0_10 =
     [0, 0, 0, 0, 0, 0, 0, 0,  0, 0, 0, 0, 0, 0, 0x24, 0x40,
      0, 0, 0, 0, 0, 0, 0, 0,  0, 0, 0, 0, 0, 0, 0x24, 0x40]"

definition key_5_15_5_15 :: "uchar list" where
  "key_5_15_5_15 =
     [0, 0, 0, 0, 0, 0, 0x14, 0x40,  0, 0, 0, 0, 0, 0, 0x2E, 0x40,
      0, 0, 0, 0, 0, 0, 0x14, 0x40,  0, 0, 0, 0, 0, 0, 0x2E, 0x40]"

text \<open>
  The key \<open>(20, 30, 20, 30)\<close>, and two keys of one dimension: \<open>(0, X)\<close> and
  \<open>(-100, X)\<close> for \<open>X = 3.2884281489988079e+284\<close>, the number in the comment of
  \<^verbatim>\<open>rtree_area_increase\<close>, of bits \<^verbatim>\<open>0x7B01B10038001B00\<close>.
\<close>

definition key_20_30_20_30 :: "uchar list" where
  "key_20_30_20_30 =
     [0, 0, 0, 0, 0, 0, 0x34, 0x40,  0, 0, 0, 0, 0, 0, 0x3E, 0x40,
      0, 0, 0, 0, 0, 0, 0x34, 0x40,  0, 0, 0, 0, 0, 0, 0x3E, 0x40]"

definition large_number :: double where
  "large_number = double_of_bits 0x7B01B10038001B00"

definition key_0_large :: "uchar list" where
  "key_0_large =
     [0, 0, 0, 0, 0, 0, 0, 0,  0x00, 0x1B, 0x00, 0x38, 0x00, 0xB1, 0x01, 0x7B]"

definition key_minus_100_large :: "uchar list" where
  "key_minus_100_large =
     [0, 0, 0, 0, 0, 0, 0x59, 0xC0,  0x00, 0x1B, 0x00, 0x38, 0x00, 0xB1, 0x01, 0x7B]"

section \<open>Vocabulary of the claims on rectangles\<close>

text \<open>
  The box handed to the geometry library under the active coordinate model: the stored
  coordinates for an absent or Cartesian reference system, their values in radians
  otherwise.
\<close>

definition model_box :: "spatial_reference_system option \<Rightarrow> rtr_mbr_t \<Rightarrow> box" where
  "model_box srs m =
     (case srs of
        None \<Rightarrow> cartesian_box_of m
      | Some s \<Rightarrow> if is_cartesian s then cartesian_box_of m else geographic_box_of s m)"

text \<open>The conversion back to native units of what the library returns.\<close>

definition from_model :: "spatial_reference_system option \<Rightarrow> double \<Rightarrow> double" where
  "from_model srs d =
     (case srs of None \<Rightarrow> d | Some s \<Rightarrow> if is_cartesian s then d else from_radians s d)"

definition axis_lengths :: "spatial_reference_system option \<Rightarrow> double \<times> double" where
  "axis_lengths srs =
     (case srs of
        None \<Rightarrow> (Zero False, Zero False)
      | Some s \<Rightarrow> (semi_major_axis s, semi_minor_axis s))"

text \<open>The min/max-normalized box, and the two conditions of the legacy rule of within.\<close>

definition normalized :: "rtr_mbr_t \<Rightarrow> rtr_mbr_t" where
  "normalized m =
     \<lparr>xmin = std_min (xmin m) (xmax m), xmax = std_max (xmin m) (xmax m),
      ymin = std_min (ymin m) (ymax m), ymax = std_max (ymin m) (ymax m)\<rparr>"

definition reversed_on_both_axes :: "rtr_mbr_t \<Rightarrow> bool" where
  "reversed_on_both_axes a = (d_gt (xmin a) (xmax a) \<and> d_gt (ymin a) (ymax a))"

definition same_stored_coordinates :: "rtr_mbr_t \<Rightarrow> rtr_mbr_t \<Rightarrow> bool" where
  "same_stored_coordinates a b =
     (d_eq (xmin a) (xmin b) \<and> d_eq (ymin a) (ymin b) \<and>
      d_eq (xmax a) (xmax b) \<and> d_eq (ymax a) (ymax b))"

definition covered_by_normalized ::
  "(double \<Rightarrow> double \<Rightarrow> box \<Rightarrow> box \<Rightarrow> bool option) \<Rightarrow> spatial_reference_system option \<Rightarrow>
   rtr_mbr_t \<Rightarrow> rtr_mbr_t \<Rightarrow> bool option" where
  "covered_by_normalized covered_by srs a b =
     covered_by (fst (axis_lengths srs)) (snd (axis_lengths srs))
       (model_box srs (normalized a)) (model_box srs (normalized b))"

text \<open>The standard invariant of a rectangle, and equality of rectangles by \<^verbatim>\<open>==\<close>.\<close>

definition valid_mbr :: "rtr_mbr_t \<Rightarrow> bool" where
  "valid_mbr m = (d_le (xmin m) (xmax m) \<and> d_le (ymin m) (ymax m))"

definition same_rectangle :: "rtr_mbr_t \<Rightarrow> rtr_mbr_t \<Rightarrow> bool" where
  "same_rectangle m m' =
     (d_eq (xmin m) (xmin m') \<and> d_eq (xmax m) (xmax m') \<and>
      d_eq (ymin m) (ymin m') \<and> d_eq (ymax m) (ymax m'))"

definition all_nan :: "rtr_mbr_t \<Rightarrow> bool" where
  "all_nan m = (isnan (xmin m) \<and> isnan (xmax m) \<and> isnan (ymin m) \<and> isnan (ymax m))"

text \<open>
  Modelled from the spec: \<^verbatim>\<open>bg::expand\<close> of Boost.Geometry, which is not among the files at
  hand. The specification has join replace A by the smallest rectangle covering both A
  and B, axis-wise min of mins and max of maxes, computed under the active coordinate
  model. The minimum and maximum are those of the C++ library; boxes of two different
  types do not compile, and are \<open>None\<close> here.
\<close>

fun bg_expand :: "box \<Rightarrow> box \<Rightarrow> box option" where
  "bg_expand (Cartesian_box (ax0, ay0) (ax1, ay1)) (Cartesian_box (bx0, by0) (bx1, by1)) =
     Some (Cartesian_box (std_min ax0 bx0, std_min ay0 by0) (std_max ax1 bx1, std_max ay1 by1))"
| "bg_expand (Geographic_box (ax0, ay0) (ax1, ay1)) (Geographic_box (bx0, by0) (bx1, by1)) =
     Some (Geographic_box (std_min ax0 bx0, std_min ay0 by0) (std_max ax1 bx1, std_max ay1 by1))"
| "bg_expand _ _ = None"

text \<open>
  The join in the words of the specification: both rectangles in the units of the model,
  axis-wise min of mins and max of maxes, converted back.
\<close>

definition to_model :: "spatial_reference_system option \<Rightarrow> double \<Rightarrow> double" where
  "to_model srs d =
     (case srs of None \<Rightarrow> d | Some s \<Rightarrow> if is_cartesian s then d else to_radians s d)"

definition spec_join :: "spatial_reference_system option \<Rightarrow> rtr_mbr_t \<Rightarrow> rtr_mbr_t \<Rightarrow> rtr_mbr_t" where
  "spec_join srs a b =
     \<lparr>xmin = from_model srs (std_min (to_model srs (xmin a)) (to_model srs (xmin b))),
      xmax = from_model srs (std_max (to_model srs (xmax a)) (to_model srs (xmax b))),
      ymin = from_model srs (std_min (to_model srs (ymin a)) (to_model srs (ymin b))),
      ymax = from_model srs (std_max (to_model srs (ymax a)) (to_model srs (ymax b)))\<rparr>"

text \<open>
  What the claims on join need of the conversions of an ellipsoidal system: a number
  converts to a number, and equal radians convert back to equal native values.
\<close>

definition regular_conversions :: "spatial_reference_system option \<Rightarrow> bool" where
  "regular_conversions srs =
     ((\<forall>d. \<not> isnan d \<longrightarrow> \<not> isnan (to_model srs d)) \<and>
      (\<forall>x y. d_eq x y \<longrightarrow> d_eq (from_model srs x) (from_model srs y)))"

text \<open>
  The area of the joined box as \<^verbatim>\<open>mbr_join_area\<close> computes it inside its \<^verbatim>\<open>try\<close> block;
  \<open>None\<close> when a library call throws.
\<close>

definition joined_area ::
  "(box \<Rightarrow> box \<Rightarrow> box option) \<Rightarrow> ((double \<times> double) option \<Rightarrow> box \<Rightarrow> double option) \<Rightarrow>
   spatial_reference_system option \<Rightarrow> rtr_mbr_t \<Rightarrow> rtr_mbr_t \<Rightarrow> double option" where
  "joined_area expand area srs a b =
     (case expand (model_box srs a) (model_box srs b) of
        None \<Rightarrow> None
      | Some a_box \<Rightarrow>
          area (case srs of
                  None \<Rightarrow> None
                | Some s \<Rightarrow> if is_cartesian s then None
                            else Some (semi_major_axis s, semi_minor_axis s))
               a_box)"

text \<open>
  The four coordinates \<^verbatim>\<open>get_mbr_from_store\<close> writes to \<^verbatim>\<open>mbr\<close> before it tests for
  NaN: the envelope of the decoded geometry, converted back to native units. \<open>None\<close> when
  the record does not parse or a library call throws.
\<close>

definition decoded_envelope ::
  "(spatial_reference_system option \<Rightarrow> uchar list \<Rightarrow> 64 word \<Rightarrow> bool \<Rightarrow> 'g option option) \<Rightarrow>
   ('g \<Rightarrow> spatial_reference_system option \<Rightarrow> box_type \<Rightarrow> box option) \<Rightarrow>
   spatial_reference_system option \<Rightarrow> uchar list \<Rightarrow> 32 word \<Rightarrow> rtr_mbr_t option" where
  "decoded_envelope parse_wkb box_envelope srs store store_size =
     (case parse_wkb srs (drop 4 store) (ucast store_size - 4) True of
        Some (Some g) \<Rightarrow>
          map_option (box_to_mbr (from_model srs))
            (box_envelope g srs
               (case srs of
                  None \<Rightarrow> Cartesian_type
                | Some s \<Rightarrow> if is_cartesian s then Cartesian_type else Geographic_type))
      | _ \<Rightarrow> None)"

text \<open>
  What the two assertions at the end of \<^verbatim>\<open>get_mbr_from_store\<close> state of these four
  coordinates, that is, what the code expects of the envelope \<^verbatim>\<open>gis::box_envelope\<close>
  computes: when \<open>xmin\<close> is NaN the other three are NaN too (the geometry is empty), and
  otherwise \<open>xmin \<le> xmax\<close> and \<open>ymin \<le> ymax\<close>.
\<close>

definition envelope_contract :: "rtr_mbr_t \<Rightarrow> bool" where
  "envelope_contract m =
     (if isnan (xmin m) then isnan (xmax m) \<and> isnan (ymin m) \<and> isnan (ymax m)
      else d_le (xmin m) (xmax m) \<and> d_le (ymin m) (ymax m))"

definition stored_srid :: "32 word option \<Rightarrow> uchar list \<Rightarrow> 32 word option" where
  "stored_srid srid store = (if srid \<noteq> None then uint4korr store else srid)"

subsection \<open>Stand-ins for the geometry library in the examples\<close>

text \<open>
  Modelled from the spec: the geometry functions on Cartesian boxes, for the examples
  only. A box is covered by another when its interval lies in the other's on both axes,
  and the planar area is \<open>(xmax - xmin) * (ymax - ymin)\<close>. The geodesic computations on
  geographic boxes are not modelled: the stand-ins throw on them.
\<close>

fun cartesian_covered_by :: "double \<Rightarrow> double \<Rightarrow> box \<Rightarrow> box \<Rightarrow> bool option" where
  "cartesian_covered_by major minor
     (Cartesian_box (ax0, ay0) (ax1, ay1)) (Cartesian_box (bx0, by0) (bx1, by1)) =
     Some (d_le bx0 ax0 \<and> d_le ax1 bx1 \<and> d_le by0 ay0 \<and> d_le ay1 by1)"
| "cartesian_covered_by major minor _ _ = None"

fun planar_area :: "(double \<times> double) option \<Rightarrow> box \<Rightarrow> double option" where
  "planar_area None (Cartesian_box (x0, y0) (x1, y1)) =
     Some (d_mul (d_sub x1 x0) (d_sub y1 y0))"
| "planar_area _ _ = None"

definition mbr_of_ints :: "int \<Rightarrow> int \<Rightarrow> int \<Rightarrow> int \<Rightarrow> rtr_mbr_t" where
  "mbr_of_ints x0 x1 y0 y1 =
     \<lparr>xmin = d_of_int x0, xmax = d_of_int x1, ymin = d_of_int y0, ymax = d_of_int y1\<rparr>"

text \<open>
  An ellipsoidal reference system whose angular unit is the radian, so that its
  conversions change nothing; the axes are those of WGS 84, in metres.
\<close>

definition radian_srs :: spatial_reference_system where
  "radian_srs =
     \<lparr>srs_id = 1, is_cartesian = False, is_geographic = True,
      semi_major_axis = d_of_int 6378137, semi_minor_axis = d_of_int 6356752,
      to_radians = (\<lambda>d. d), from_radians = (\<lambda>d. d)\<rparr>"

text \<open>
  A parser that accepts every record, with geometries that are their own envelope: the
  stand-ins for \<^verbatim>\<open>gis::parse_wkb\<close> and \<^verbatim>\<open>gis::box_envelope\<close> in the examples.
\<close>

definition parse_any :: "box \<Rightarrow> spatial_reference_system option \<Rightarrow> uchar list \<Rightarrow> 64 word \<Rightarrow> bool \<Rightarrow>
    box option option" where
  "parse_any g srs payload len flag = Some (Some g)"

definition envelope_itself :: "box \<Rightarrow> spatial_reference_system option \<Rightarrow> box_type \<Rightarrow> box option" where
  "envelope_itself g srs t = Some g"

section \<open>Properties\<close>

text \<open>
  Claim C1. For every reference system (also an absent one) and every pair of rectangles
  the intersects predicate returns true: a release build returns true on every input and
  computes nothing, and a debug build, where the old value of the function is an
  assertion, returns true when the assertion holds and stops otherwise; no build returns
  false.
\<close>

theorem mbr_intersect_cmp_always_true:
  "mbr_intersect_cmp False srs a b = Return True \<and>
   mbr_intersect_cmp dbug srs a b \<noteq> Return False \<and>
   mbr_intersect_cmp True srs a b =
     (if old_intersect_value a b then Return True else Assert_Failed)"
  by (simp add: mbr_intersect_cmp_def DBUG_ASSERT_def old_intersect_value_def)

text \<open>Hence disjoint, the negation of intersects, is false in a release build.\<close>

lemma mbr_disjoint_cmp_false: "mbr_disjoint_cmp False srs a b = Return False"
  by (simp add: mbr_disjoint_cmp_def mbr_intersect_cmp_def DBUG_ASSERT_def)

subsection \<open>The model of binary64\<close>

text \<open>\<open>bit_length n\<close> is the number of binary digits of \<open>n\<close>.\<close>

lemma bits_shift:
  fixes n q :: int
  assumes q: "q = n div 2 ^ k" and pos: "0 < q"
    and lo: "2 ^ (b - 1) \<le> q" and hi: "q < 2 ^ b"
  shows "2 ^ (k + b - 1) \<le> n \<and> n < 2 ^ (k + b)"
proof -
  have b: "0 < b" using pos hi by (cases b) auto
  have split: "n = q * 2 ^ k + n mod 2 ^ k"
    unfolding q by (rule div_mult_mod_eq [symmetric])
  have r: "0 \<le> n mod 2 ^ k" "n mod 2 ^ k < 2 ^ k"
    by simp_all
  have "2 ^ (b - 1) * 2 ^ k \<le> q * (2 ^ k :: int)"
    using lo by simp
  moreover have "(2 :: int) ^ (b - 1) * 2 ^ k = 2 ^ (k + b - 1)"
    using b by (simp add: power_add [symmetric])
  ultimately have low: "2 ^ (k + b - 1) \<le> n"
    using split r(1) by linarith
  have "q + 1 \<le> 2 ^ b" using hi by simp
  then have "(q + 1) * 2 ^ k \<le> 2 ^ b * (2 ^ k :: int)"
    by (rule mult_right_mono) simp
  moreover have "(2 :: int) ^ b * 2 ^ k = 2 ^ (k + b)"
    by (simp add: power_add)
  moreover have "(q + 1) * 2 ^ k = q * 2 ^ k + (2 ^ k :: int)"
    by (simp add: algebra_simps)
  moreover note split r(2)
  ultimately have "n < 2 ^ (k + b)" by linarith
  with low show ?thesis by simp
qed

lemma bit_length_bounds:
  "0 < n \<Longrightarrow> 2 ^ (bit_length n - 1) \<le> n \<and> n < 2 ^ bit_length n"
proof (induction n rule: bit_length.induct)
  case (1 n)
  consider (big) "18446744073709551616 \<le> n"
    | (mid) "n < 18446744073709551616" "256 \<le> n"
    | (two) "n < 256" "2 \<le> n"
    | (one) "n = 1"
    using "1.prems" by linarith
  then show ?case
  proof cases
    case big
    then have q: "0 < n div 18446744073709551616" by simp
    from "1.IH"(1) big q "1.prems"
    have ih: "2 ^ (bit_length (n div 18446744073709551616) - 1) \<le> n div 18446744073709551616 \<and>
              n div 18446744073709551616 < 2 ^ bit_length (n div 18446744073709551616)"
      by simp
    have bl: "bit_length n = 64 + bit_length (n div 18446744073709551616)"
      using big "1.prems" by (subst bit_length.simps) simp
    from bits_shift [of "n div 18446744073709551616" n 64, OF _ q] ih
    show ?thesis unfolding bl by simp
  next
    case mid
    then have q: "0 < n div 256" by simp
    from "1.IH"(2) mid q "1.prems"
    have ih: "2 ^ (bit_length (n div 256) - 1) \<le> n div 256 \<and>
              n div 256 < 2 ^ bit_length (n div 256)"
      by simp
    have bl: "bit_length n = 8 + bit_length (n div 256)"
      using mid "1.prems" by (subst bit_length.simps) simp
    from bits_shift [of "n div 256" n 8, OF _ q] ih
    show ?thesis unfolding bl by simp
  next
    case two
    then have q: "0 < n div 2" by simp
    from "1.IH"(3) two q "1.prems"
    have ih: "2 ^ (bit_length (n div 2) - 1) \<le> n div 2 \<and>
              n div 2 < 2 ^ bit_length (n div 2)"
      by simp
    have bl: "bit_length n = 1 + bit_length (n div 2)"
      using two "1.prems" by (subst bit_length.simps) simp
    from bits_shift [of "n div 2" n 1, OF _ q] ih
    show ?thesis unfolding bl by simp
  next
    case one
    have "bit_length 1 = 1"
      by (simp add: bit_length.simps)
    with one show ?thesis by simp
  qed
qed

text \<open>
  \<open>round_nearest_even\<close> returns a canonical value, within half a unit in the last place
  of the exact one, and an even significand on a tie.
\<close>

lemma div_bounds:
  fixes m d :: int
  assumes d: "0 < d"
  shows "a * d \<le> m \<Longrightarrow> a \<le> m div d" and "m < b * d \<Longrightarrow> m div d < b"
proof -
  have split: "m = m div d * d + m mod d" by (rule div_mult_mod_eq [symmetric])
  have r: "0 \<le> m mod d" "m mod d < d" using d by simp_all
  show "a \<le> m div d" if a: "a * d \<le> m"
  proof (rule ccontr)
    assume "\<not> a \<le> m div d"
    then have "m div d + 1 \<le> a" by simp
    then have "(m div d + 1) * d \<le> a * d" using d by (intro mult_right_mono) simp_all
    moreover have "(m div d + 1) * d = m div d * d + d" by (simp add: algebra_simps)
    ultimately show False using a split r(2) by linarith
  qed
  show "m div d < b" if b: "m < b * d"
  proof (rule ccontr)
    assume "\<not> m div d < b"
    then have "b \<le> m div d" by simp
    then have "b * d \<le> m div d * d" using d by (intro mult_right_mono) simp_all
    then show False using b split r(1) by linarith
  qed
qed

lemma round_nearest_even_canonical:
  assumes m: "0 < m" and res: "round_nearest_even s m e = Finite t q f"
  shows "t = s \<and> 0 < q \<and> q < 2 ^ 53 \<and> - 1074 \<le> f \<and> f \<le> 971 \<and> (2 ^ 52 \<le> q \<or> f = - 1074)"
proof -
  define bl where "bl = bit_length m"
  define e' where "e' = max (e + int bl - 53) (- 1074)"
  from bit_length_bounds [OF m] have lo: "2 ^ (bl - 1) \<le> m" and hi: "m < 2 ^ bl"
    by (simp_all add: bl_def)
  have bl1: "1 \<le> bl" using m hi by (cases bl) auto
  have e'lo: "- 1074 \<le> e'" and e'ge: "e + int bl - 53 \<le> e'" by (simp_all add: e'_def)
  show ?thesis
  proof (cases "e' \<le> e")
    case True
    have "round_nearest_even s m e =
            (if 971 < e' then Infinity s else Finite s (m * 2 ^ nat (e - e')) e')"
      unfolding round_nearest_even_def Let_def bl_def [symmetric] e'_def [symmetric]
      using m True by simp
    with res have f: "f = e'" and q: "q = m * 2 ^ nat (e - e')" and t: "t = s"
      and top: "e' \<le> 971"
      by (auto split: if_splits)
    have sh: "bl + nat (e - e') \<le> 53" using e'ge True by linarith
    have "q < 2 ^ bl * 2 ^ nat (e - e')" unfolding q using hi by simp
    also have "\<dots> = 2 ^ (bl + nat (e - e'))" by (simp add: power_add)
    also have "\<dots> \<le> (2 :: int) ^ 53" using sh by (intro power_increasing) simp_all
    finally have q53: "q < 2 ^ 53" .
    have qpos: "0 < q" unfolding q using m by simp
    have norm: "2 ^ 52 \<le> q \<or> f = - 1074"
    proof (cases "e' = - 1074")
      case True
      then show ?thesis by (simp add: f)
    next
      case False
      then have "e' = e + int bl - 53" by (simp add: e'_def max_def split: if_splits)
      then have n: "nat (e - e') = 53 - bl" by linarith
      have "52 = (bl - 1) + (53 - bl)" using bl1 sh n by simp
      then have "(2 :: int) ^ 52 = 2 ^ (bl - 1) * 2 ^ (53 - bl)"
        by (simp only: power_add)
      also have "\<dots> \<le> m * 2 ^ (53 - bl)" using lo by simp
      finally show ?thesis by (simp add: q n)
    qed
    from t qpos q53 e'lo top norm show ?thesis by (simp add: f)
  next
    case False
    define sh where "sh = nat (e' - e)"
    define q0 where "q0 = m div 2 ^ sh"
    define r where "r = m mod 2 ^ sh"
    define q' where "q' = (if r > 2 ^ (sh - 1) \<or> (r = 2 ^ (sh - 1) \<and> odd q0) then q0 + 1 else q0)"
    have sh1: "1 \<le> sh" using False by (simp add: sh_def)
    define q'' where "q'' = (if q' = 2 ^ 53 then 2 ^ 52 else q')"
    define e'' where "e'' = (if q' = 2 ^ 53 then e' + 1 else e')"
    have "round_nearest_even s m e =
            (if q'' = 0 then Zero s else if 971 < e'' then Infinity s else Finite s q'' e'')"
      unfolding round_nearest_even_def Let_def bl_def [symmetric] e'_def [symmetric]
        sh_def [symmetric] q0_def [symmetric] r_def [symmetric] q'_def [symmetric]
        q''_def [symmetric] e''_def [symmetric]
      using m False by simp
    with res have t: "t = s" and "q = q''" and "f = e''" and "q'' \<noteq> 0" and "e'' \<le> 971"
      by (auto split: if_splits)
    then have q: "q = (if q' = 2 ^ 53 then 2 ^ 52 else q')"
      and f: "f = (if q' = 2 ^ 53 then e' + 1 else e')"
      and q_nz: "q \<noteq> 0" and top: "f \<le> 971"
      by (simp_all add: q''_def e''_def)
    have "bl \<le> 53 + sh" using e'ge False by (simp add: sh_def)
    then have "(2 :: int) ^ bl \<le> 2 ^ (53 + sh)" by (intro power_increasing) simp_all
    with hi have "m < 2 ^ 53 * 2 ^ sh" by (simp add: power_add)
    then have q0hi: "q0 < 2 ^ 53" unfolding q0_def
      by (intro div_bounds(2)) simp_all
    have q0lo: "0 \<le> q0" unfolding q0_def using m by (simp add: pos_imp_zdiv_nonneg_iff)
    have q'_bounds: "q0 \<le> q'" "q' \<le> 2 ^ 53" using q0hi by (auto simp: q'_def)
    have qpos: "0 < q" using q_nz q0lo q'_bounds by (auto simp: q split: if_splits)
    have q53: "q < 2 ^ 53" using q'_bounds by (auto simp: q)
    have flo: "- 1074 \<le> f" using e'lo by (simp add: f)
    have norm: "2 ^ 52 \<le> q \<or> f = - 1074"
    proof (cases "q' = 2 ^ 53 \<or> e' = - 1074")
      case True
      then show ?thesis by (auto simp: q f)
    next
      case F: False
      then have "e' = e + int bl - 53" by (simp add: e'_def max_def split: if_splits)
      then have n: "bl = 53 + sh" using False by (simp add: sh_def)
      have "bl - 1 = 52 + sh" using n by simp
      then have "(2 :: int) ^ (bl - 1) = 2 ^ 52 * 2 ^ sh" by (simp only: power_add)
      with lo have "2 ^ 52 * 2 ^ sh \<le> m" by simp
      then have "2 ^ 52 \<le> q0" unfolding q0_def
        by (intro div_bounds(1)) simp_all
      with q'_bounds F show ?thesis by (simp add: q)
    qed
    from t qpos q53 flo top norm show ?thesis by simp
  qed
qed


lemma round_nearest_even_error:
  assumes m: "0 < m" and res: "round_nearest_even s m e = Finite t q f"
  shows "2 * \<bar>q * 2 ^ nat (f - min e f) - m * 2 ^ nat (e - min e f)\<bar> \<le> 2 ^ nat (f - min e f)"
proof -
  define bl where "bl = bit_length m"
  define e' where "e' = max (e + int bl - 53) (- 1074)"
  show ?thesis
  proof (cases "e' \<le> e")
    case True
    have "round_nearest_even s m e =
            (if 971 < e' then Infinity s else Finite s (m * 2 ^ nat (e - e')) e')"
      unfolding round_nearest_even_def Let_def bl_def [symmetric] e'_def [symmetric]
      using m True by simp
    with res have f: "f = e'" and q: "q = m * 2 ^ nat (e - e')"
      by (auto split: if_splits)
    from True have "min e f = f" by (simp add: f)
    then show ?thesis by (simp add: q f)
  next
    case False
    define sh where "sh = nat (e' - e)"
    define q0 where "q0 = m div 2 ^ sh"
    define r where "r = m mod 2 ^ sh"
    define q' where "q' = (if r > 2 ^ (sh - 1) \<or> (r = 2 ^ (sh - 1) \<and> odd q0) then q0 + 1 else q0)"
    define q'' where "q'' = (if q' = 2 ^ 53 then 2 ^ 52 else q')"
    define e'' where "e'' = (if q' = 2 ^ 53 then e' + 1 else e')"
    have sh1: "1 \<le> sh" and sh: "int sh = e' - e" using False by (simp_all add: sh_def)
    have "round_nearest_even s m e =
            (if q'' = 0 then Zero s else if 971 < e'' then Infinity s else Finite s q'' e'')"
      unfolding round_nearest_even_def Let_def bl_def [symmetric] e'_def [symmetric]
        sh_def [symmetric] q0_def [symmetric] r_def [symmetric] q'_def [symmetric]
        q''_def [symmetric] e''_def [symmetric]
      using m False by simp
    with res have q: "q = q''" and f: "f = e''"
      by (auto split: if_splits)
    have split: "m = q0 * 2 ^ sh + r"
      unfolding q0_def r_def by (rule div_mult_mod_eq [symmetric])
    have r: "0 \<le> r" "r < 2 ^ sh" by (simp_all add: r_def)
    have half: "(2 :: int) * 2 ^ (sh - 1) = 2 ^ sh"
      using sh1 by (cases sh) simp_all
    have up: "(q0 + 1) * 2 ^ sh = q0 * 2 ^ sh + (2 ^ sh :: int)" by (simp add: algebra_simps)
    have err: "2 * \<bar>q' * 2 ^ sh - m\<bar> \<le> 2 ^ sh"
    proof (cases "r > 2 ^ (sh - 1) \<or> (r = 2 ^ (sh - 1) \<and> odd q0)")
      case True
      then have "q' = q0 + 1" and "2 ^ (sh - 1) \<le> r" by (auto simp: q'_def)
      then show ?thesis using split r half up by simp
    next
      case False
      then have "q' = q0" and "r \<le> 2 ^ (sh - 1)" by (auto simp: q'_def)
      then show ?thesis using split r half by simp
    qed
    have ef: "e < f" using False by (simp add: f e''_def)
    then have k: "min e f = e" by simp
    have goal_form: "?thesis \<longleftrightarrow> 2 * \<bar>q * 2 ^ nat (f - e) - m\<bar> \<le> 2 ^ nat (f - e)"
      by (simp add: k)
    show ?thesis
    proof (cases "q' = 2 ^ 53")
      case True
      then have "q = 2 ^ 52" and fe: "nat (f - e) = Suc sh"
        using sh by (simp_all add: q q''_def f e''_def)
      then have v: "q * 2 ^ Suc sh = q' * 2 ^ sh" by (simp add: True)
      have "2 * \<bar>q * 2 ^ Suc sh - m\<bar> \<le> 2 ^ sh" using err by (simp only: v)
      also have "\<dots> \<le> 2 ^ Suc sh" by simp
      finally have "2 * \<bar>q * 2 ^ nat (f - e) - m\<bar> \<le> 2 ^ nat (f - e)"
        by (simp only: fe)
      then show ?thesis by (simp only: goal_form)
    next
      case False
      then have "q = q'" and "nat (f - e) = sh"
        using sh by (simp_all add: q q''_def f e''_def)
      with err have "2 * \<bar>q * 2 ^ nat (f - e) - m\<bar> \<le> 2 ^ nat (f - e)" by simp
      then show ?thesis by (simp only: goal_form)
    qed
  qed
qed


lemma round_nearest_even_tie:
  assumes m: "0 < m" and res: "round_nearest_even s m e = Finite t q f"
    and tie: "2 * \<bar>q * 2 ^ nat (f - min e f) - m * 2 ^ nat (e - min e f)\<bar> = 2 ^ nat (f - min e f)"
  shows "even q"
proof -
  define bl where "bl = bit_length m"
  define e' where "e' = max (e + int bl - 53) (- 1074)"
  show ?thesis
  proof (cases "e' \<le> e")
    case True
    have "round_nearest_even s m e =
            (if 971 < e' then Infinity s else Finite s (m * 2 ^ nat (e - e')) e')"
      unfolding round_nearest_even_def Let_def bl_def [symmetric] e'_def [symmetric]
      using m True by simp
    with res have f: "f = e'" and q: "q = m * 2 ^ nat (e - e')"
      by (auto split: if_splits)
    from True have "min e f = f" by (simp add: f)
    with tie show ?thesis by (simp add: q f)
  next
    case False
    define sh where "sh = nat (e' - e)"
    define q0 where "q0 = m div 2 ^ sh"
    define r where "r = m mod 2 ^ sh"
    define q' where "q' = (if r > 2 ^ (sh - 1) \<or> (r = 2 ^ (sh - 1) \<and> odd q0) then q0 + 1 else q0)"
    define q'' where "q'' = (if q' = 2 ^ 53 then 2 ^ 52 else q')"
    define e'' where "e'' = (if q' = 2 ^ 53 then e' + 1 else e')"
    have sh1: "1 \<le> sh" and sh: "int sh = e' - e" using False by (simp_all add: sh_def)
    have "round_nearest_even s m e =
            (if q'' = 0 then Zero s else if 971 < e'' then Infinity s else Finite s q'' e'')"
      unfolding round_nearest_even_def Let_def bl_def [symmetric] e'_def [symmetric]
        sh_def [symmetric] q0_def [symmetric] r_def [symmetric] q'_def [symmetric]
        q''_def [symmetric] e''_def [symmetric]
      using m False by simp
    with res have q: "q = q''" and f: "f = e''"
      by (auto split: if_splits)
    show ?thesis
    proof (cases "q' = 2 ^ 53")
      case True
      then show ?thesis by (simp add: q q''_def)
    next
      case q'53: False
      then have qq: "q = q'" and fe: "nat (f - e) = sh"
        using sh by (simp_all add: q q''_def f e''_def)
      have "e < f" using False by (simp add: f e''_def)
      then have k: "min e f = e" by simp
      from tie have tie': "2 * \<bar>q' * 2 ^ sh - m\<bar> = 2 ^ sh"
        unfolding k fe qq by simp
      have split: "m = q0 * 2 ^ sh + r"
        unfolding q0_def r_def by (rule div_mult_mod_eq [symmetric])
      have r: "0 \<le> r" "r < 2 ^ sh" by (simp_all add: r_def)
      have half: "(2 :: int) * 2 ^ (sh - 1) = 2 ^ sh"
        using sh1 by (cases sh) simp_all
      have up: "(q0 + 1) * 2 ^ sh = q0 * 2 ^ sh + (2 ^ sh :: int)" by (simp add: algebra_simps)
      show ?thesis
      proof (cases "r > 2 ^ (sh - 1) \<or> (r = 2 ^ (sh - 1) \<and> odd q0)")
        case True
        then have q'1: "q' = q0 + 1" by (simp add: q'_def)
        with tie' split r up have "2 * (2 ^ sh - r) = 2 ^ sh" by simp
        then have "2 * r = 2 ^ sh" by simp
        with half have "r = 2 ^ (sh - 1)" by simp
        with True have "odd q0" by simp
        then show ?thesis by (simp add: qq q'1)
      next
        case F: False
        then have q'0: "q' = q0" by (simp add: q'_def)
        with tie' split r have "2 * r = 2 ^ sh" by simp
        with half have "r = 2 ^ (sh - 1)" by simp
        with F have "even q0" by simp
        then show ?thesis by (simp add: qq q'0)
      qed
    qed
  qed
qed

text \<open>
  The encodings of \<open>1.0\<close>, of the largest and the lowest finite double, of \<open>0.001\<close>, of
  the infinities, of a NaN and of the negative zero.
\<close>

lemma double_of_bits_examples:
  "double_of_bits 0x3FF0000000000000 = d_one"
  "double_of_bits 0x7FEFFFFFFFFFFFFF = DBL_MAX"
  "double_of_bits 0xFFEFFFFFFFFFFFFF = DBL_LOWEST"
  "double_of_bits 0x3F50624DD2F1A9FC = line_mbr_weights"
  "double_of_bits 0x7FF0000000000000 = Infinity False"
  "double_of_bits 0xFFF0000000000000 = Infinity True"
  "double_of_bits 0x7FF8000000000000 = NaN"
  "double_of_bits 0x8000000000000000 = Zero True"
  "double_of_bits 0x4059000000000000 = d_of_int 100"
  by code_simp+

text \<open>\<open>line_mbr_weights\<close> is within half a unit in the last place of \<open>1/1000\<close>.\<close>

lemma line_mbr_weights_nearest:
  "line_mbr_weights = Finite False 4611686018427388 (- 62) \<and>
   2 * \<bar>1000 * 4611686018427388 - 2 ^ 62\<bar> \<le> (1000 :: int)"
  by (simp add: line_mbr_weights_def)

text \<open>
  The example in the comment of \<^verbatim>\<open>rtree_area_increase\<close>:
  \<^verbatim>\<open>3.2884281489988079e+284 - 100 = 3.2884281489988079e+284\<close>.
\<close>

lemma large_minus_100: "d_sub large_number (d_of_int 100) = large_number"
  by code_simp

subsection \<open>The loops read the keys pair by pair\<close>

lemma doubleget_in_key:
  "off + 8 \<le> length key \<Longrightarrow> doubleget key off = Some (double_at key off)"
  by (simp add: doubleget_def)

lemma area_increase_loop_done:
  "key_len \<le> 0 \<Longrightarrow> area_increase_loop a b key_len off x y z = Return (x, y, z)"
  by (simp add: area_increase_loop.simps)

lemma area_increase_loop_pairs:
  "length a = 16 * n \<Longrightarrow> length b = 16 * n \<Longrightarrow> i \<le> n \<Longrightarrow>
   area_increase_loop a b (16 * (int n - int i)) (16 * i) x y z =
     Return (foldl spec_increase_step (x, y, z)
       (zip (map (\<lambda>i. (double_at a (16 * i), double_at a (16 * i + 8))) [i ..< n])
            (map (\<lambda>i. (double_at b (16 * i), double_at b (16 * i + 8))) [i ..< n])))"
proof (induction "n - i" arbitrary: i x y z)
  case 0
  then have "i = n" by simp
  then show ?case by (simp add: area_increase_loop_done)
next
  case (Suc k)
  then have lt: "i < n" and k: "k = n - Suc i" by simp_all
  from lt Suc.prems have reads:
    "doubleget a (16 * i) = Some (double_at a (16 * i))"
    "doubleget b (16 * i) = Some (double_at b (16 * i))"
    "doubleget a (16 * i + 8) = Some (double_at a (16 * i + 8))"
    "doubleget b (16 * i + 8) = Some (double_at b (16 * i + 8))"
    by (simp_all add: doubleget_in_key)
  have pos: "16 * (int n - int i) > 0" using lt by simp
  have next_len: "16 * (int n - int i) - 16 = 16 * (int n - int (Suc i))" by simp
  have next_off: "16 * i + 16 = 16 * Suc i" by simp
  have IH: "\<And>x y z. area_increase_loop a b (16 * (int n - int (Suc i))) (16 * Suc i) x y z =
     Return (foldl spec_increase_step (x, y, z)
       (zip (map (\<lambda>i. (double_at a (16 * i), double_at a (16 * i + 8))) [Suc i ..< n])
            (map (\<lambda>i. (double_at b (16 * i), double_at b (16 * i + 8))) [Suc i ..< n])))"
    using Suc.hyps(1) [OF k] Suc.prems lt by simp
  show ?case
    apply (subst area_increase_loop.simps)
    apply (simp only: pos if_True reads option.case next_len next_off Let_def IH)
    apply (simp add: upt_conv_Cons [OF lt] Let_def span_or_weight_def d_gt_def)
    done
qed

lemma raw_key_pairs_nil: "raw_key_pairs [] = []"
  by (simp add: raw_key_pairs_def)

lemma well_formed_key_length:
  assumes "0 < mbr_len" and "mbr_len mod 16 = 0"
  shows "nat mbr_len = 16 * (nat mbr_len div 16)"
    and "mbr_len = 16 * int (nat mbr_len div 16)"
proof -
  from assms(2) obtain k where k: "mbr_len = 16 * k" by auto
  with assms(1) have pos: "0 < k" by simp
  then have n: "nat mbr_len = 16 * nat k" using k by (simp add: nat_mult_distrib)
  then have q: "nat mbr_len div 16 = nat k" by simp
  show "nat mbr_len = 16 * (nat mbr_len div 16)" using n q by simp
  show "mbr_len = 16 * int (nat mbr_len div 16)" using k pos q by simp
qed

lemma area_increase_loop_key:
  "length a = 16 * n \<Longrightarrow> length b = 16 * n \<Longrightarrow>
   area_increase_loop a b (16 * int n) 0 x y z =
     Return (foldl spec_increase_step (x, y, z) (zip (raw_key_pairs a) (raw_key_pairs b)))"
  using area_increase_loop_pairs [of a n b 0 x y z] by (simp add: raw_key_pairs_def)

lemma area_overlapping_loop_done:
  "key_len \<le> 0 \<Longrightarrow> area_overlapping_loop a b key_len off acc = Return acc"
  by (simp add: area_overlapping_loop.simps)

lemma area_overlapping_loop_pairs:
  "length a = 16 * n \<Longrightarrow> length b = 16 * n \<Longrightarrow> i \<le> n \<Longrightarrow>
   area_overlapping_loop a b (16 * (int n - int i)) (16 * i) acc =
     (let ivs = map overlap_interval
        (zip (map (\<lambda>i. (double_at a (16 * i), double_at a (16 * i + 8))) [i ..< n])
             (map (\<lambda>i. (double_at b (16 * i), double_at b (16 * i + 8))) [i ..< n]))
      in Return (if list_ex (\<lambda>(lo, hi). d_gt lo hi) ivs then d_of_int 0
                 else foldl (\<lambda>acc (lo, hi). d_mul acc (d_sub hi lo)) acc ivs))"
proof (induction "n - i" arbitrary: i acc)
  case 0
  then have "i = n" by simp
  then show ?case by (simp add: area_overlapping_loop_done)
next
  case (Suc k)
  then have lt: "i < n" and k: "k = n - Suc i" by simp_all
  from lt Suc.prems have reads:
    "doubleget a (16 * i) = Some (double_at a (16 * i))"
    "doubleget b (16 * i) = Some (double_at b (16 * i))"
    "doubleget a (16 * i + 8) = Some (double_at a (16 * i + 8))"
    "doubleget b (16 * i + 8) = Some (double_at b (16 * i + 8))"
    by (simp_all add: doubleget_in_key)
  have pos: "16 * (int n - int i) > 0" using lt by simp
  have next_len: "16 * (int n - int i) - 16 = 16 * (int n - int (Suc i))" by simp
  have next_off: "16 * i + 16 = 16 * Suc i" by simp
  note IH = Suc.hyps(1) [OF k Suc.prems(1,2) Suc_leI [OF lt]]
  show ?case
    apply (subst area_overlapping_loop.simps)
    apply (simp only: pos if_True reads option.case next_len next_off Let_def IH)
    apply (simp add: upt_conv_Cons [OF lt] Let_def overlap_interval_def)
    done
qed

lemma area_overlapping_loop_key:
  "length a = 16 * n \<Longrightarrow> length b = 16 * n \<Longrightarrow>
   area_overlapping_loop a b (16 * int n) 0 d_one =
     Return (spec_overlap_area (raw_key_pairs a) (raw_key_pairs b))"
  using area_overlapping_loop_pairs [of a n b 0 d_one]
  by (simp add: raw_key_pairs_def spec_overlap_area_def spans_product_def Let_def)

subsection \<open>Order facts about comparisons\<close>

lemma d_lt_asym: "d_lt x y \<Longrightarrow> \<not> d_lt y x"
  by (cases x; cases y) (auto simp: min.commute)

lemma d_eq_not_lt: "d_eq x y \<Longrightarrow> \<not> d_lt y x"
  by (cases x; cases y) (auto simp: min.commute)

lemma d_le_not_gt: "d_le x y \<Longrightarrow> \<not> d_lt y x"
  by (auto simp: d_le_def dest: d_lt_asym d_eq_not_lt)

lemma std_max_of_le: "d_le b a \<Longrightarrow> std_max a b = a"
  by (simp add: std_max_def d_le_not_gt)

lemma std_min_of_le: "d_le a b \<Longrightarrow> std_min a b = a"
  by (simp add: std_min_def d_le_not_gt)

lemma overlap_of_contained:
  "length ka = length kb \<Longrightarrow>
   list_all (\<lambda>((amin, amax), (bmin, bmax)). d_le bmin amin \<and> d_le amin amax \<and> d_le amax bmax)
     (zip ka kb) \<Longrightarrow>
   map overlap_interval (zip ka kb) = ka \<and> \<not> list_ex (\<lambda>(lo, hi). d_gt lo hi) ka"
  by (induction ka kb rule: list_induct2)
     (auto simp: overlap_interval_def std_max_of_le std_min_of_le d_gt_def d_le_not_gt)

subsection \<open>Arithmetic on the numbers of the examples\<close>

lemma example_keys:
  "raw_key_pairs key_0_10_0_10 = [(d_of_int 0, d_of_int 10), (d_of_int 0, d_of_int 10)]"
  "raw_key_pairs key_5_15_5_15 = [(d_of_int 5, d_of_int 15), (d_of_int 5, d_of_int 15)]"
  by code_simp+

lemma example_sub:
  "d_sub (d_of_int 10) (d_of_int 0) = d_of_int 10"
  "d_sub (d_of_int 15) (d_of_int 0) = d_of_int 15"
  "d_sub (d_of_int 10) (d_of_int 5) = d_of_int 5"
  "d_sub (d_of_int 225) (d_of_int 100) = d_of_int 125"
  by code_simp+

lemma example_mul:
  "d_mul d_one (d_of_int 5) = d_of_int 5"
  "d_mul d_one (d_of_int 10) = d_of_int 10"
  "d_mul d_one (d_of_int 15) = d_of_int 15"
  "d_mul (d_of_int 5) (d_of_int 5) = d_of_int 25"
  "d_mul (d_of_int 10) (d_of_int 10) = d_of_int 100"
  "d_mul (d_of_int 15) (d_of_int 15) = d_of_int 225"
  by code_simp+

lemma example_lt:
  "d_lt (d_of_int 0) (d_of_int 5)" "\<not> d_lt (d_of_int 5) (d_of_int 0)"
  "d_lt (d_of_int 10) (d_of_int 15)" "\<not> d_lt (d_of_int 15) (d_of_int 10)"
  "d_lt (d_of_int 5) (d_of_int 10)" "\<not> d_lt (d_of_int 10) (d_of_int 5)"
  "d_lt (d_of_int 0) (d_of_int 10)" "\<not> d_lt (d_of_int 10) (d_of_int 0)"
  "\<not> d_lt (d_of_int 0) (d_of_int 0)" "\<not> d_lt (d_of_int 10) (d_of_int 10)"
  "d_lt (d_of_int 5) (d_of_int 15)" "d_lt (d_of_int 0) (d_of_int 15)"
  by code_simp+

lemma example_eq:
  "\<not> d_eq (d_of_int 10) (d_of_int 0)" "\<not> d_eq (d_of_int 15) (d_of_int 0)"
  "\<not> d_eq (d_of_int 15) (d_of_int 10)" "\<not> d_eq (d_of_int 225) (d_of_int 100)"
  "d_eq (d_of_int 0) (d_of_int 0)" "d_eq (d_of_int 10) (d_of_int 10)"
  "d_eq (d_of_int 100) (d_of_int 100)" "\<not> d_eq (d_of_int 100) d_one"
  by code_simp+

lemma example_keys_disjoint:
  "raw_key_pairs key_20_30_20_30 = [(d_of_int 20, d_of_int 30), (d_of_int 20, d_of_int 30)]"
  "d_lt (d_of_int 0) (d_of_int 20)" "\<not> d_lt (d_of_int 30) (d_of_int 10)"
  "d_lt (d_of_int 10) (d_of_int 20)"
  by code_simp+

lemma example_keys_large:
  "raw_key_pairs key_0_large = [(d_of_int 0, large_number)]"
  "raw_key_pairs key_minus_100_large = [(d_of_int (- 100), large_number)]"
  by code_simp+

lemma example_large:
  "d_sub large_number (d_of_int 0) = large_number"
  "d_sub large_number (d_of_int (- 100)) = large_number"
  "d_sub large_number large_number = d_of_int 0"
  "d_sub (d_of_int 0) (d_of_int (- 100)) = d_of_int 100"
  "d_add (d_of_int 0) (d_of_int 100) = d_of_int 100"
  "d_mul d_one large_number = large_number"
  "d_mul d_one (d_of_int 100) = d_of_int 100"
  "\<not> d_eq large_number (d_of_int 0)" "d_eq large_number large_number"
  "\<not> d_lt large_number large_number"
  "d_lt (d_of_int (- 100)) (d_of_int 0)" "\<not> d_lt (d_of_int 0) (d_of_int (- 100))"
  by code_simp+

lemmas example_arith = example_sub example_mul example_lt example_eq

lemma rtree_area_increase_pairs:
  assumes "length mbr_a = nat mbr_len" and "length mbr_b = nat mbr_len"
    and "mbr_len mod 16 = 0"
  shows "rtree_area_increase srs mbr_a mbr_b mbr_len =
           Return (spec_area_increase (raw_key_pairs mbr_a) (raw_key_pairs mbr_b))"
proof (cases "0 < mbr_len")
  case False
  with assms have "mbr_a = []" "mbr_b = []" by simp_all
  with False show ?thesis
    by (simp add: rtree_area_increase_def area_increase_loop_done raw_key_pairs_nil
        spec_area_increase_def)
next
  case True
  define n where "n = length mbr_a div 16"
  from assms True have len: "length mbr_a = 16 * n" "length mbr_b = 16 * n"
    and L: "mbr_len = 16 * int n"
    using well_formed_key_length [of mbr_len] by (simp_all add: n_def)
  show ?thesis
    unfolding rtree_area_increase_def spec_area_increase_def L
    by (simp add: area_increase_loop_key [OF len] split: prod.splits)
qed

lemma rtree_area_overlapping_pairs:
  assumes "length mbr_a = nat mbr_len" and "length mbr_b = nat mbr_len"
    and "mbr_len mod 16 = 0"
  shows "rtree_area_overlapping srs mbr_a mbr_b mbr_len =
           Return (spec_overlap_area (raw_key_pairs mbr_a) (raw_key_pairs mbr_b))"
proof (cases "0 < mbr_len")
  case False
  with assms have "mbr_a = []" "mbr_b = []" by simp_all
  with False show ?thesis
    by (simp add: rtree_area_overlapping_def area_overlapping_loop_done raw_key_pairs_nil
        spec_overlap_area_def spans_product_def)
next
  case True
  define n where "n = length mbr_a div 16"
  from assms True have len: "length mbr_a = 16 * n" "length mbr_b = 16 * n"
    and L: "mbr_len = 16 * int n"
    using well_formed_key_length [of mbr_len] by (simp_all add: n_def)
  show ?thesis
    unfolding rtree_area_overlapping_def L
    by (rule area_overlapping_loop_key [OF len])
qed

text \<open>
  Claim C3. On two keys of \<open>mbr_len\<close> bytes, \<open>mbr_len\<close> a multiple of 16,
  \<open>rtree_area_increase\<close> returns what the specification describes: per dimension the
  compensation accumulator is multiplied by
  \<open>(max(amax,bmax) - amax) + (amin - min(amin,bmin))\<close> when \<open>bmin < amin\<close> or
  \<open>bmax > amax\<close>, and by the plain union span otherwise, and only where the running
  products are equal; the returned delta is the accumulator exactly when the final products
  are equal and the accumulator is not \<open>1.0\<close>, and the difference of the products in
  every other case. The union area is the second output.
\<close>

theorem rtree_area_increase_compensation:
  assumes "length mbr_a = nat mbr_len" and "length mbr_b = nat mbr_len"
    and "mbr_len mod 16 = 0"
  shows "rtree_area_increase srs mbr_a mbr_b mbr_len =
           Return (spec_area_increase (raw_key_pairs mbr_a) (raw_key_pairs mbr_b))"
  using assms by (rule rtree_area_increase_pairs)

text \<open>
  The keys \<open>(0, 10, 0, 10)\<close> and \<open>(5, 15, 5, 15)\<close>: the union area is 225 and the
  increase is \<open>225 - 100 = 125\<close>. The keys \<open>(0, X)\<close> and \<open>(-100, X)\<close> for the large
  \<open>X\<close> of the comment in the code: the union span \<open>X + 100\<close> rounds to \<open>X\<close>, the span
  of the first key, so the difference of the products is 0, and the increase returned is
  the compensation \<open>(X - X) + (0 - (-100)) = 100\<close>.
\<close>

theorem rtree_area_increase_compensation_witness:
  "length key_0_10_0_10 = nat 32 \<and> length key_5_15_5_15 = nat 32 \<and> (32 :: int) mod 16 = 0 \<and>
   rtree_area_increase None key_0_10_0_10 key_5_15_5_15 32 =
     Return (d_of_int 125, d_of_int 225) \<and>
   rtree_area_increase None key_0_large key_minus_100_large 16 =
     Return (d_of_int 100, large_number) \<and>
   d_sub large_number large_number = d_of_int 0"
proof -
  have h: "length key_0_10_0_10 = nat 32" "length key_5_15_5_15 = nat 32"
    "(32 :: int) mod 16 = 0"
    by (simp_all add: key_0_10_0_10_def key_5_15_5_15_def)
  have h': "length key_0_large = nat 16" "length key_minus_100_large = nat 16"
    "(16 :: int) mod 16 = 0"
    by (simp_all add: key_0_large_def key_minus_100_large_def)
  have e1: "spec_area_increase (raw_key_pairs key_0_10_0_10) (raw_key_pairs key_5_15_5_15) =
          (d_of_int 125, d_of_int 225)"
    by (simp add: example_keys spec_area_increase_def span_or_weight_def std_max_def
        std_min_def d_gt_def d_ne_def example_arith)
  have e2: "spec_area_increase (raw_key_pairs key_0_large) (raw_key_pairs key_minus_100_large) =
          (d_of_int 100, large_number)"
    by (simp add: example_keys_large spec_area_increase_def span_or_weight_def std_max_def
        std_min_def d_gt_def d_ne_def example_large example_arith)
  from rtree_area_increase_compensation [OF h, of None]
       rtree_area_increase_compensation [OF h', of None] h
  show ?thesis by (simp add: e1 e2 example_large)
qed

text \<open>
  Claim C5. On two keys of \<open>mbr_len\<close> bytes, \<open>mbr_len\<close> a multiple of 16,
  \<open>rtree_area_overlapping\<close> returns 0 when some dimension has
  \<open>max(amin,bmin) > min(amax,bmax)\<close> and the product of the spans of the overlap
  intervals otherwise; when on every dimension the interval of A lies in that of B
  (\<open>bmin \<le> amin \<le> amax \<le> bmax\<close>) the result is the product of the spans of A.
\<close>

theorem rtree_area_overlapping_spec:
  assumes "length mbr_a = nat mbr_len" and "length mbr_b = nat mbr_len"
    and "mbr_len mod 16 = 0"
  shows "rtree_area_overlapping srs mbr_a mbr_b mbr_len =
           Return (spec_overlap_area (raw_key_pairs mbr_a) (raw_key_pairs mbr_b)) \<and>
         (list_ex (\<lambda>(lo, hi). d_gt lo hi)
            (map overlap_interval (zip (raw_key_pairs mbr_a) (raw_key_pairs mbr_b))) \<longrightarrow>
          rtree_area_overlapping srs mbr_a mbr_b mbr_len = Return (d_of_int 0)) \<and>
         (list_all (\<lambda>((amin, amax), (bmin, bmax)).
              d_le bmin amin \<and> d_le amin amax \<and> d_le amax bmax)
            (zip (raw_key_pairs mbr_a) (raw_key_pairs mbr_b)) \<longrightarrow>
          rtree_area_overlapping srs mbr_a mbr_b mbr_len =
            Return (spans_product (raw_key_pairs mbr_a)))"
proof -
  have main: "rtree_area_overlapping srs mbr_a mbr_b mbr_len =
           Return (spec_overlap_area (raw_key_pairs mbr_a) (raw_key_pairs mbr_b))"
    using assms by (rule rtree_area_overlapping_pairs)
  have same_len: "length (raw_key_pairs mbr_a) = length (raw_key_pairs mbr_b)"
    using assms by (simp add: raw_key_pairs_def)
  show ?thesis
    using main overlap_of_contained [OF same_len]
    by (auto simp: spec_overlap_area_def Let_def)
qed

text \<open>
  The keys \<open>(5, 15, 5, 15)\<close> and \<open>(0, 10, 0, 10)\<close> overlap in \<open>[5,10] \<times> [5,10]\<close>, of
  area 25; the key \<open>(0, 10, 0, 10)\<close> lies in itself, with area 100; the keys
  \<open>(0, 10, 0, 10)\<close> and \<open>(20, 30, 20, 30)\<close> are disjoint.
\<close>

theorem rtree_area_overlapping_spec_witness:
  "rtree_area_overlapping None key_5_15_5_15 key_0_10_0_10 32 = Return (d_of_int 25) \<and>
   rtree_area_overlapping None key_0_10_0_10 key_0_10_0_10 32 = Return (d_of_int 100) \<and>
   rtree_area_overlapping None key_0_10_0_10 key_20_30_20_30 32 = Return (d_of_int 0)"
proof -
  have h: "length key_0_10_0_10 = nat 32" "length key_5_15_5_15 = nat 32"
    "(32 :: int) mod 16 = 0" "length key_20_30_20_30 = nat 32"
    by (simp_all add: key_0_10_0_10_def key_5_15_5_15_def key_20_30_20_30_def)
  have e1: "spec_overlap_area (raw_key_pairs key_5_15_5_15) (raw_key_pairs key_0_10_0_10) =
          d_of_int 25"
    by (simp add: example_keys spec_overlap_area_def overlap_interval_def spans_product_def
        std_max_def std_min_def d_gt_def example_arith)
  have e2: "list_all (\<lambda>((amin, amax), (bmin, bmax)).
              d_le bmin amin \<and> d_le amin amax \<and> d_le amax bmax)
            (zip (raw_key_pairs key_0_10_0_10) (raw_key_pairs key_0_10_0_10))"
    by (simp add: example_keys d_le_def example_arith)
  have e3: "spans_product (raw_key_pairs key_0_10_0_10) = d_of_int 100"
    by (simp add: example_keys spans_product_def example_arith)
  have e4: "list_ex (\<lambda>(lo, hi). d_gt lo hi)
              (map overlap_interval
                (zip (raw_key_pairs key_0_10_0_10) (raw_key_pairs key_20_30_20_30)))"
    by (simp add: example_keys example_keys_disjoint overlap_interval_def std_max_def
        std_min_def d_gt_def)
  have r1: "rtree_area_overlapping None key_5_15_5_15 key_0_10_0_10 32 = Return (d_of_int 25)"
    using rtree_area_overlapping_spec [OF h(2) h(1) h(3), of None, THEN conjunct1]
    by (simp only: e1)
  have r2: "rtree_area_overlapping None key_0_10_0_10 key_0_10_0_10 32 = Return (d_of_int 100)"
    using rtree_area_overlapping_spec [OF h(1) h(1) h(3), of None, THEN conjunct2, THEN conjunct2]
      e2 by (simp only: e3)
  have r3: "rtree_area_overlapping None key_0_10_0_10 key_20_30_20_30 32 = Return (d_of_int 0)"
    using rtree_area_overlapping_spec [OF h(1) h(4) h(3), of None, THEN conjunct2, THEN conjunct1]
      e4 by simp
  from r1 r2 r3 show ?thesis by simp
qed

subsection \<open>A key against itself\<close>

lemma d_lt_irrefl: "\<not> d_lt x x"
  using d_lt_asym [of x x] by blast

lemma d_eq_refl: "\<not> isnan x \<Longrightarrow> d_eq x x"
  by (cases x) simp_all

lemma isnan_d_mul_left: "isnan x \<Longrightarrow> isnan (d_mul x y)"
  by (cases x) simp_all

lemma d_eq_isnan: "isnan x \<Longrightarrow> \<not> d_eq x y"
  by (cases x) simp_all

lemma same_key_fold:
  "list_all (\<lambda>(lo, hi). d_ne (d_sub hi lo) (d_of_int 0)) ps \<Longrightarrow> isnan a \<or> acc = a \<Longrightarrow>
   \<exists>acc'. foldl spec_increase_step (a, a, acc) (zip ps ps) =
           (foldl (\<lambda>acc (lo, hi). d_mul acc (d_sub hi lo)) a ps,
            foldl (\<lambda>acc (lo, hi). d_mul acc (d_sub hi lo)) a ps, acc') \<and>
          (isnan (foldl (\<lambda>acc (lo, hi). d_mul acc (d_sub hi lo)) a ps) \<or>
           acc' = foldl (\<lambda>acc (lo, hi). d_mul acc (d_sub hi lo)) a ps)"
proof (induction ps arbitrary: a acc)
  case Nil
  then show ?case by simp
next
  case (Cons p ps)
  obtain lo hi where p: "p = (lo, hi)" by (cases p)
  from Cons.prems(1) p have nz: "d_ne (d_sub hi lo) (d_of_int 0)"
    and rest: "list_all (\<lambda>(lo, hi). d_ne (d_sub hi lo) (d_of_int 0)) ps"
    by simp_all
  define a' where "a' = d_mul a (d_sub hi lo)"
  define acc1 where "acc1 = (if d_eq a' a' then d_mul acc (d_sub hi lo) else acc)"
  have step: "spec_increase_step (a, a, acc) ((lo, hi), (lo, hi)) = (a', a', acc1)"
    using nz
    by (simp add: Let_def span_or_weight_def std_max_def std_min_def d_gt_def d_lt_irrefl
        d_ne_def a'_def acc1_def)
  have inv: "isnan a' \<or> acc1 = a'"
  proof (cases "isnan a'")
    case True
    then show ?thesis by simp
  next
    case False
    then have "\<not> isnan a" unfolding a'_def using isnan_d_mul_left by blast
    with Cons.prems(2) have "acc = a" by simp
    with False show ?thesis by (simp add: acc1_def a'_def d_eq_refl)
  qed
  have lhs: "foldl spec_increase_step (a, a, acc) (zip (p # ps) (p # ps)) =
             foldl spec_increase_step (a', a', acc1) (zip ps ps)"
    by (simp only: p zip_Cons_Cons foldl_Cons step)
  have rhs: "foldl (\<lambda>acc (lo, hi). d_mul acc (d_sub hi lo)) a (p # ps) =
             foldl (\<lambda>acc (lo, hi). d_mul acc (d_sub hi lo)) a' ps"
    by (simp add: p a'_def)
  from Cons.IH [OF rest inv] show ?case
    by (simp only: lhs rhs)
qed

text \<open>
  For a key whose spans are all nonzero, against itself: the union area is the product
  \<open>P\<close> of the spans, and the returned increase is \<open>P\<close> itself unless \<open>P\<close> is NaN or
  equals \<open>1.0\<close>.
\<close>

lemma rtree_area_increase_same_key:
  assumes "length key = nat mbr_len" and "mbr_len mod 16 = 0"
    and "list_all (\<lambda>(lo, hi). d_ne (d_sub hi lo) (d_of_int 0)) (raw_key_pairs key)"
  shows "rtree_area_increase srs key key mbr_len =
           Return (if \<not> isnan (spans_product (raw_key_pairs key)) \<and>
                      d_ne (spans_product (raw_key_pairs key)) d_one
                   then spans_product (raw_key_pairs key)
                   else d_sub (spans_product (raw_key_pairs key))
                          (spans_product (raw_key_pairs key)),
                   spans_product (raw_key_pairs key))"
proof -
  from same_key_fold [OF assms(3), of d_one d_one]
  obtain acc' where f: "foldl spec_increase_step (d_one, d_one, d_one)
        (zip (raw_key_pairs key) (raw_key_pairs key)) =
      (spans_product (raw_key_pairs key), spans_product (raw_key_pairs key), acc')"
    and inv: "isnan (spans_product (raw_key_pairs key)) \<or>
              acc' = spans_product (raw_key_pairs key)"
    by (auto simp: spans_product_def)
  show ?thesis
    using inv
    by (auto simp: rtree_area_increase_pairs [OF assms(1) assms(1) assms(2)]
        spec_area_increase_def f d_eq_refl d_eq_isnan)
qed

text \<open>
  Claim C2. For a key \<open>K\<close> with nonzero spans the claim has \<open>rtree_area_increase(K, K)\<close>
  return the increase 0. The code does not: on the key \<open>(0, 10, 0, 10)\<close>, whose spans are
  10 and 10, it stores the union area 100, the product of the spans, and returns the
  increase 100.
\<close>

theorem rtree_area_increase_same_key_not_zero:
  "list_all (\<lambda>(lo, hi). d_ne (d_sub hi lo) (d_of_int 0)) (raw_key_pairs key_0_10_0_10) \<and>
   rtree_area_increase None key_0_10_0_10 key_0_10_0_10 32 =
     Return (d_of_int 100, d_of_int 100) \<and>
   \<not> d_eq (d_of_int 100) (d_of_int 0)"
proof -
  have h: "length key_0_10_0_10 = nat 32" "(32 :: int) mod 16 = 0"
    by (simp_all add: key_0_10_0_10_def)
  have nz: "list_all (\<lambda>(lo, hi). d_ne (d_sub hi lo) (d_of_int 0))
              (raw_key_pairs key_0_10_0_10)"
    by (simp add: example_keys d_ne_def example_arith)
  have p: "spans_product (raw_key_pairs key_0_10_0_10) = d_of_int 100"
    by (simp add: example_keys spans_product_def example_arith)
  have fin: "\<not> isnan (d_of_int 100)" "\<not> d_eq (d_of_int 100) (d_of_int 0)"
    by code_simp+
  show ?thesis
    using rtree_area_increase_same_key [OF h nz, of None] nz fin
    by (simp add: p d_ne_def example_arith)
qed

text \<open>
  Claim C8. Both raw-key operations return the same outputs for any two reference-system
  arguments, an absent one included: the argument has no influence on the result.
\<close>

theorem raw_key_metrics_ignore_srs:
  "rtree_area_increase srs1 mbr_a mbr_b mbr_len = rtree_area_increase srs2 mbr_a mbr_b mbr_len \<and>
   rtree_area_overlapping srs1 mbr_a mbr_b mbr_len =
     rtree_area_overlapping srs2 mbr_a mbr_b mbr_len"
  by (simp add: rtree_area_increase_def rtree_area_overlapping_def)

subsection \<open>Assertions and the catch-all handler\<close>

lemma DBUG_ASSERT_release: "DBUG_ASSERT False c k = k"
  by (simp add: DBUG_ASSERT_def)

lemma catch_all_release: "catch_all False dflt = Return dflt"
  by (simp add: catch_all_def DBUG_ASSERT_def)



lemma DBUG_ASSERT_debug: "DBUG_ASSERT True c k = (if c then k else Assert_Failed)"
  by (simp add: DBUG_ASSERT_def)

lemma catch_all_debug: "catch_all True dflt = Assert_Failed"
  by (simp add: catch_all_def DBUG_ASSERT_def)

lemma from_model_cases:
  "from_model None = (\<lambda>d. d)"
  "is_cartesian s \<Longrightarrow> from_model (Some s) = (\<lambda>d. d)"
  "\<not> is_cartesian s \<Longrightarrow> from_model (Some s) = from_radians s"
  by (simp_all add: from_model_def fun_eq_iff)

subsection \<open>Within\<close>

text \<open>
  Claim C4. \<open>mbr_within_cmp\<close> computes covered-by on the min/max-normalized boxes and
  inverts the result exactly when the stored bounds of A are reversed on both axes and A
  differs from B in one of the four stored coordinates; when A equals B coordinate for
  coordinate the result is not inverted. (When the library throws, the result is false,
  not inverted.) A debug build returns the same or stops at an assertion.
\<close>

theorem mbr_within_cmp_inverts:
  "mbr_within_cmp False covered_by srs a b =
     Return (case covered_by_normalized covered_by srs a b of
               None \<Rightarrow> False
             | Some r \<Rightarrow>
                 if reversed_on_both_axes a \<and> \<not> same_stored_coordinates a b then \<not> r else r) \<and>
   (same_stored_coordinates a b \<longrightarrow>
    mbr_within_cmp False covered_by srs a b =
      Return (case covered_by_normalized covered_by srs a b of None \<Rightarrow> False | Some r \<Rightarrow> r)) \<and>
   (mbr_within_cmp True covered_by srs a b = Assert_Failed \<or>
    mbr_within_cmp True covered_by srs a b = mbr_within_cmp False covered_by srs a b)"
  by (auto simp: mbr_within_cmp_def covered_by_normalized_def model_box_def axis_lengths_def
      normalized_def reversed_on_both_axes_def same_stored_coordinates_def
      cartesian_box_of_def geographic_box_of_def catch_all_def DBUG_ASSERT_def Let_def
      split: option.splits)

text \<open>
  The literal case of the specification: \<open>A = (xmin 10, xmax 0, ymin 10, ymax 0)\<close> and
  \<open>B = (xmin 0, xmax 10, ymin 0, ymax 10)\<close> normalize to the same box, so covered-by is
  true and the result is inverted to false; A against itself is not inverted.
\<close>

theorem mbr_within_cmp_inverts_witness:
  "mbr_within_cmp False cartesian_covered_by None (mbr_of_ints 10 0 10 0) (mbr_of_ints 0 10 0 10) =
     Return False \<and>
   same_stored_coordinates (mbr_of_ints 10 0 10 0) (mbr_of_ints 10 0 10 0) \<and>
   mbr_within_cmp False cartesian_covered_by None (mbr_of_ints 10 0 10 0) (mbr_of_ints 10 0 10 0) =
     Return True"
proof -
  have n1: "normalized (mbr_of_ints 10 0 10 0) = mbr_of_ints 0 10 0 10"
    and n2: "normalized (mbr_of_ints 0 10 0 10) = mbr_of_ints 0 10 0 10"
    by (simp_all add: normalized_def mbr_of_ints_def std_min_def std_max_def example_arith)
  have cov: "covered_by_normalized cartesian_covered_by None
               (mbr_of_ints 10 0 10 0) (mbr_of_ints 0 10 0 10) = Some True"
    "covered_by_normalized cartesian_covered_by None
               (mbr_of_ints 10 0 10 0) (mbr_of_ints 10 0 10 0) = Some True"
    unfolding covered_by_normalized_def n1 n2
    by (simp_all add: model_box_def cartesian_box_of_def axis_lengths_def
        mbr_of_ints_def d_le_def example_arith)
  have rev: "reversed_on_both_axes (mbr_of_ints 10 0 10 0)"
    by (simp add: reversed_on_both_axes_def mbr_of_ints_def d_gt_def example_arith)
  have diff: "\<not> same_stored_coordinates (mbr_of_ints 10 0 10 0) (mbr_of_ints 0 10 0 10)"
    by (simp add: same_stored_coordinates_def mbr_of_ints_def example_arith)
  have same: "same_stored_coordinates (mbr_of_ints 10 0 10 0) (mbr_of_ints 10 0 10 0)"
    by (simp add: same_stored_coordinates_def mbr_of_ints_def example_arith)
  show ?thesis
    using mbr_within_cmp_inverts [of cartesian_covered_by None "mbr_of_ints 10 0 10 0"
        "mbr_of_ints 0 10 0 10"]
      mbr_within_cmp_inverts [of cartesian_covered_by None "mbr_of_ints 10 0 10 0"
        "mbr_of_ints 10 0 10 0"]
    by (simp add: cov rev diff same)
qed

subsection \<open>Join and the area of the join\<close>

lemma isfinite_DBL_MAX: "isfinite DBL_MAX"
  by (simp add: DBL_MAX_def)

text \<open>
  Claim C6. \<open>mbr_join_area\<close> returns a finite double: whatever it returns is finite, in a
  release build it always returns, and when the computed area of the joined box is NaN or
  an infinity the value returned is the largest finite double. (When the library throws,
  the value is 0.) A debug build returns the same or stops at an assertion.
\<close>

theorem mbr_join_area_finite:
  "(\<forall>r. mbr_join_area dbug expand area srs a b n_dim = Return r \<longrightarrow> isfinite r) \<and>
   mbr_join_area False expand area srs a b n_dim =
     Return (case joined_area expand area srs a b of
               None \<Rightarrow> Zero False
             | Some ar \<Rightarrow> if isfinite ar then ar else DBL_MAX) \<and>
   (mbr_join_area True expand area srs a b n_dim = Assert_Failed \<or>
    mbr_join_area True expand area srs a b n_dim = mbr_join_area False expand area srs a b n_dim)"
  by (auto simp: mbr_join_area_def joined_area_def model_box_def DBUG_ASSERT_def Let_def
      isfinite_DBL_MAX split: option.splits if_splits)

text \<open>
  The full-domain rectangle joined with itself has the span \<open>DBL_MAX - DBL_LOWEST\<close>, which
  overflows to infinity, on both axes: the area returned is \<open>DBL_MAX\<close>. The rectangles
  \<open>[0,10] \<times> [0,10]\<close> and \<open>[5,15] \<times> [5,15]\<close> join to a box of area 225.
\<close>

lemma full_span_overflows: "d_sub DBL_MAX DBL_LOWEST = Infinity False"
  by code_simp

theorem mbr_join_area_finite_witness:
  "mbr_join_area False bg_expand planar_area None full_domain full_domain 2 = Return DBL_MAX \<and>
   isfinite DBL_MAX \<and>
   mbr_join_area False bg_expand planar_area None (mbr_of_ints 0 10 0 10) (mbr_of_ints 5 15 5 15) 2 =
     Return (d_of_int 225) \<and>
   isfinite (d_of_int 225)"
proof -
  have a1: "joined_area bg_expand planar_area None full_domain full_domain =
              Some (Infinity False)"
    by (simp add: joined_area_def model_box_def cartesian_box_of_def full_domain_def
        std_min_def std_max_def d_lt_irrefl full_span_overflows)
  have a2: "joined_area bg_expand planar_area None (mbr_of_ints 0 10 0 10) (mbr_of_ints 5 15 5 15) =
              Some (d_of_int 225)"
    by (simp add: joined_area_def model_box_def cartesian_box_of_def mbr_of_ints_def
        std_min_def std_max_def example_arith)
  have f: "isfinite (d_of_int 225)" by code_simp
  from mbr_join_area_finite [of False bg_expand planar_area None full_domain full_domain 2]
       mbr_join_area_finite [of False bg_expand planar_area None "mbr_of_ints 0 10 0 10"
         "mbr_of_ints 5 15 5 15" 2]
  show ?thesis by (simp add: a1 a2 f isfinite_DBL_MAX)
qed

lemma d_le_not_nan: "d_le x y \<Longrightarrow> \<not> isnan x \<and> \<not> isnan y"
  by (cases x; cases y) (simp_all add: d_le_def)

lemma d_trichotomy:
  "\<not> isnan x \<Longrightarrow> \<not> isnan y \<Longrightarrow> \<not> d_lt x y \<Longrightarrow> \<not> d_lt y x \<Longrightarrow> d_eq x y"
  by (cases x; cases y) (auto simp: min.commute)

lemma std_min_commutes: "\<not> isnan x \<Longrightarrow> \<not> isnan y \<Longrightarrow> d_eq (std_min x y) (std_min y x)"
  using d_lt_asym [of x y] d_trichotomy [of x y]
  by (auto simp: std_min_def d_eq_refl)

lemma std_max_commutes: "\<not> isnan x \<Longrightarrow> \<not> isnan y \<Longrightarrow> d_eq (std_max x y) (std_max y x)"
  using d_lt_asym [of x y] d_trichotomy [of x y]
  by (auto simp: std_max_def d_eq_refl)

lemma mbr_join_release:
  "mbr_join False bg_expand srs a b n_dim = Return (spec_join srs a b)"
  by (cases srs)
     (simp_all add: mbr_join_def spec_join_def DBUG_ASSERT_def Let_def cartesian_box_of_def
       geographic_box_of_def box_to_mbr_def to_model_def from_model_def)

lemma mbr_join_debug:
  "mbr_join True expand srs a b n_dim = Assert_Failed \<or>
   mbr_join True expand srs a b n_dim = mbr_join False expand srs a b n_dim"
  by (auto simp: mbr_join_def DBUG_ASSERT_def catch_all_def Let_def split: option.splits)

lemma regular_conversions_cartesian:
  "regular_conversions None" "is_cartesian s \<Longrightarrow> regular_conversions (Some s)"
  by (simp_all add: regular_conversions_def to_model_def from_model_def)

lemma spec_join_commutes:
  assumes "valid_mbr a" and "valid_mbr b" and "regular_conversions srs"
  shows "same_rectangle (spec_join srs a b) (spec_join srs b a)"
proof -
  from assms(1,2) have nn:
    "\<not> isnan (xmin a)" "\<not> isnan (xmax a)" "\<not> isnan (ymin a)" "\<not> isnan (ymax a)"
    "\<not> isnan (xmin b)" "\<not> isnan (xmax b)" "\<not> isnan (ymin b)" "\<not> isnan (ymax b)"
    using d_le_not_nan by (auto simp: valid_mbr_def)
  from assms(3) have conv: "\<And>d. \<not> isnan d \<Longrightarrow> \<not> isnan (to_model srs d)"
    and native: "\<And>x y. d_eq x y \<Longrightarrow> d_eq (from_model srs x) (from_model srs y)"
    by (auto simp: regular_conversions_def)
  show ?thesis
    unfolding same_rectangle_def spec_join_def
    by (simp add: native std_min_commutes std_max_commutes conv nn)
qed

text \<open>
  Claim C9. With \<^verbatim>\<open>bg::expand\<close> as the specification words it, for two valid rectangles
  \<open>mbr_join(A, B)\<close> and \<open>mbr_join(B, A)\<close> return the same rectangle, the axis-wise min of
  mins and max of maxes, compared coordinate by coordinate with \<^verbatim>\<open>==\<close>. For an
  ellipsoidal reference system this takes conversions that map numbers to numbers and
  equal radians to equal native values; an absent or Cartesian system converts nothing.
\<close>

theorem mbr_join_commutes:
  assumes "valid_mbr a" and "valid_mbr b" and "regular_conversions srs"
  shows "mbr_join False bg_expand srs a b n_dim = Return (spec_join srs a b) \<and>
         mbr_join False bg_expand srs b a n_dim = Return (spec_join srs b a) \<and>
         same_rectangle (spec_join srs a b) (spec_join srs b a) \<and>
         (mbr_join True bg_expand srs a b n_dim = Assert_Failed \<or>
          mbr_join True bg_expand srs a b n_dim = Return (spec_join srs a b))"
  using spec_join_commutes [OF assms] mbr_join_debug [of bg_expand srs a b n_dim]
  by (simp add: mbr_join_release)

text \<open>
  The rectangles \<open>[0,10] \<times> [0,10]\<close> and \<open>[5,15] \<times> [5,15]\<close> join to \<open>[0,15] \<times> [0,15]\<close>
  in either order, without a reference system and under an ellipsoidal one.
\<close>

theorem mbr_join_commutes_witness:
  "valid_mbr (mbr_of_ints 0 10 0 10) \<and> valid_mbr (mbr_of_ints 5 15 5 15) \<and>
   regular_conversions None \<and> regular_conversions (Some radian_srs) \<and>
   mbr_join False bg_expand None (mbr_of_ints 0 10 0 10) (mbr_of_ints 5 15 5 15) 2 =
     Return (mbr_of_ints 0 15 0 15) \<and>
   mbr_join False bg_expand None (mbr_of_ints 5 15 5 15) (mbr_of_ints 0 10 0 10) 2 =
     Return (mbr_of_ints 0 15 0 15) \<and>
   mbr_join False bg_expand (Some radian_srs) (mbr_of_ints 0 10 0 10) (mbr_of_ints 5 15 5 15) 2 =
     Return (mbr_of_ints 0 15 0 15) \<and>
   mbr_join False bg_expand (Some radian_srs) (mbr_of_ints 5 15 5 15) (mbr_of_ints 0 10 0 10) 2 =
     Return (mbr_of_ints 0 15 0 15)"
proof -
  have v: "valid_mbr (mbr_of_ints 0 10 0 10)" "valid_mbr (mbr_of_ints 5 15 5 15)"
    by (simp_all add: valid_mbr_def mbr_of_ints_def d_le_def example_arith)
  have r: "regular_conversions None" "regular_conversions (Some radian_srs)"
    by (simp_all add: regular_conversions_def to_model_def from_model_def radian_srs_def)
  have j: "spec_join None (mbr_of_ints 0 10 0 10) (mbr_of_ints 5 15 5 15) = mbr_of_ints 0 15 0 15"
    "spec_join None (mbr_of_ints 5 15 5 15) (mbr_of_ints 0 10 0 10) = mbr_of_ints 0 15 0 15"
    "spec_join (Some radian_srs) (mbr_of_ints 0 10 0 10) (mbr_of_ints 5 15 5 15) =
       mbr_of_ints 0 15 0 15"
    "spec_join (Some radian_srs) (mbr_of_ints 5 15 5 15) (mbr_of_ints 0 10 0 10) =
       mbr_of_ints 0 15 0 15"
    by (simp_all add: spec_join_def to_model_def from_model_def radian_srs_def mbr_of_ints_def
        std_min_def std_max_def example_arith)
  from mbr_join_commutes [OF v r(1), of 2] mbr_join_commutes [OF v r(2), of 2] v r
  show ?thesis by (simp add: j)
qed

text \<open>
  The two results are equal under \<^verbatim>\<open>==\<close> and need not be the same bits: the minimum of
  \<open>-0.0\<close> and \<open>+0.0\<close> is whichever comes first.
\<close>

lemma mbr_join_zero_signs:
  "mbr_join False bg_expand None
     \<lparr>xmin = Zero True, xmax = d_one, ymin = Zero False, ymax = d_one\<rparr>
     \<lparr>xmin = Zero False, xmax = d_one, ymin = Zero False, ymax = d_one\<rparr> 2 =
     Return \<lparr>xmin = Zero True, xmax = d_one, ymin = Zero False, ymax = d_one\<rparr>"
  "mbr_join False bg_expand None
     \<lparr>xmin = Zero False, xmax = d_one, ymin = Zero False, ymax = d_one\<rparr>
     \<lparr>xmin = Zero True, xmax = d_one, ymin = Zero False, ymax = d_one\<rparr> 2 =
     Return \<lparr>xmin = Zero False, xmax = d_one, ymin = Zero False, ymax = d_one\<rparr>"
  by (simp_all add: mbr_join_release spec_join_def to_model_def from_model_def std_min_def
      std_max_def d_lt_irrefl)

subsection \<open>Rectangle extraction\<close>

lemma valid_full_domain: "valid_mbr full_domain"
  by (simp add: valid_mbr_def full_domain_def d_le_def DBL_LOWEST_def DBL_MAX_def scaled_def
      signed_mant_def)

lemma decoded_envelope_SomeD:
  assumes "decoded_envelope parse_wkb box_envelope srs store store_size = Some m"
  obtains g bx where "parse_wkb srs (drop 4 store) (ucast store_size - 4) True = Some (Some g)"
    and "box_envelope g srs
           (case srs of None \<Rightarrow> Cartesian_type
            | Some s \<Rightarrow> if is_cartesian s then Cartesian_type else Geographic_type) = Some bx"
    and "m = box_to_mbr (from_model srs) bx"
  using assms by (auto simp: decoded_envelope_def split: option.splits)

lemma get_mbr_from_store_release:
  assumes "decoded_envelope parse_wkb box_envelope srs store store_size = Some m"
    and "srid = None \<or> uint4korr store \<noteq> None"
  shows "get_mbr_from_store False parse_wkb box_envelope srs store store_size n_dims mbr srid =
           Return (0, if isnan (xmin m) then full_domain else m, stored_srid srid store)"
proof -
  from assms(1) obtain g bx where
    p: "parse_wkb srs (drop 4 store) (ucast store_size - 4) True = Some (Some g)"
    and e: "box_envelope g srs
           (case srs of None \<Rightarrow> Cartesian_type
            | Some s \<Rightarrow> if is_cartesian s then Cartesian_type else Geographic_type) = Some bx"
    and m: "m = box_to_mbr (from_model srs) bx"
    by (rule decoded_envelope_SomeD)
  show ?thesis
  proof (cases srs)
    case None
    with p e m assms(2) show ?thesis
      by (auto simp: get_mbr_from_store_def stored_srid_def DBUG_ASSERT_release
          from_model_cases Let_def)
  next
    case (Some s)
    with p e m assms(2) show ?thesis
      by (cases "is_cartesian s")
         (auto simp: get_mbr_from_store_def stored_srid_def DBUG_ASSERT_release
           from_model_cases Let_def)
  qed
qed


text \<open>
  A debug build returns what the release build returns, unless it stops at an assertion,
  or reads the identifier of a record shorter than 4 bytes for its first assertion.
\<close>

lemma get_mbr_from_store_debug:
  "get_mbr_from_store True parse_wkb box_envelope srs store store_size n_dims mbr srid =
     Assert_Failed \<or>
   get_mbr_from_store True parse_wkb box_envelope srs store store_size n_dims mbr srid =
     Undefined_Behaviour \<or>
   get_mbr_from_store True parse_wkb box_envelope srs store store_size n_dims mbr srid =
     get_mbr_from_store False parse_wkb box_envelope srs store store_size n_dims mbr srid"
  by (cases srs)
     (auto simp: get_mbr_from_store_def DBUG_ASSERT_debug DBUG_ASSERT_release catch_all_debug
       catch_all_release Let_def split: option.splits)

text \<open>
  Claim C10. In a release build, once the record is decoded, the substitution of the
  full-domain rectangle is decided by the first output coordinate alone: when \<open>xmin\<close> is
  NaN the full-domain rectangle is returned whatever the other three coordinates are, and
  when \<open>xmin\<close> is a number the four coordinates are returned as they are, a NaN among the
  other three included, with status 0. (The identifier is read only when the caller asks
  for it.) A debug build returns the same, or stops: at an assertion, or at the read of
  the identifier of a record shorter than 4 bytes.
\<close>

theorem get_mbr_from_store_tests_xmin_only:
  assumes "decoded_envelope parse_wkb box_envelope srs store store_size = Some m"
    and "srid = None \<or> uint4korr store \<noteq> None"
  shows "(isnan (xmin m) \<longrightarrow>
            get_mbr_from_store False parse_wkb box_envelope srs store store_size n_dims mbr srid =
              Return (0, full_domain, stored_srid srid store)) \<and>
         (\<not> isnan (xmin m) \<longrightarrow>
            get_mbr_from_store False parse_wkb box_envelope srs store store_size n_dims mbr srid =
              Return (0, m, stored_srid srid store)) \<and>
         (get_mbr_from_store True parse_wkb box_envelope srs store store_size n_dims mbr srid =
            Assert_Failed \<or>
          get_mbr_from_store True parse_wkb box_envelope srs store store_size n_dims mbr srid =
            Undefined_Behaviour \<or>
          get_mbr_from_store True parse_wkb box_envelope srs store store_size n_dims mbr srid =
            get_mbr_from_store False parse_wkb box_envelope srs store store_size n_dims mbr srid)"
  using get_mbr_from_store_release [OF assms, of n_dims mbr]
    get_mbr_from_store_debug [of parse_wkb box_envelope srs store store_size n_dims mbr srid]
  by simp

text \<open>
  An envelope \<open>(xmin 5, xmax NaN, ymin 0, ymax 10)\<close> comes back as it is, with status 0;
  an envelope \<open>(xmin NaN, xmax 10, ymin 0, ymax 10)\<close> becomes the full-domain rectangle.
  The record carries the identifier 3857.
\<close>

lemma example_srid: "uint4korr [0x11, 0x0F, 0, 0] = Some 3857"
  by (simp add: uint4korr_def le_bytes_to_int_def)

theorem get_mbr_from_store_tests_xmin_only_witness:
  "get_mbr_from_store False
     (parse_any (Cartesian_box (d_of_int 5, d_of_int 0) (NaN, d_of_int 10)))
     envelope_itself None [0x11, 0x0F, 0, 0] 4 2 (mbr_of_ints 0 0 0 0) (Some 0)
     = Return (0, \<lparr>xmin = d_of_int 5, xmax = NaN, ymin = d_of_int 0, ymax = d_of_int 10\<rparr>,
               Some 3857) \<and>
   get_mbr_from_store False
     (parse_any (Cartesian_box (NaN, d_of_int 0) (d_of_int 10, d_of_int 10)))
     envelope_itself None [0x11, 0x0F, 0, 0] 4 2 (mbr_of_ints 0 0 0 0) (Some 0)
     = Return (0, full_domain, Some 3857)"
proof -
  have e1: "decoded_envelope
      (parse_any (Cartesian_box (d_of_int 5, d_of_int 0) (NaN, d_of_int 10)))
      envelope_itself None [0x11, 0x0F, 0, 0] 4 =
      Some \<lparr>xmin = d_of_int 5, xmax = NaN, ymin = d_of_int 0, ymax = d_of_int 10\<rparr>"
    and e2: "decoded_envelope
      (parse_any (Cartesian_box (NaN, d_of_int 0) (d_of_int 10, d_of_int 10)))
      envelope_itself None [0x11, 0x0F, 0, 0] 4 =
      Some \<lparr>xmin = NaN, xmax = d_of_int 10, ymin = d_of_int 0, ymax = d_of_int 10\<rparr>"
    by (simp_all add: decoded_envelope_def parse_any_def envelope_itself_def box_to_mbr_def
        from_model_def)
  have s: "Some (0 :: 32 word) = None \<or> uint4korr [0x11, 0x0F, 0, 0] \<noteq> None"
    by (simp add: example_srid)
  have five: "\<not> isnan (d_of_int 5)" by code_simp
  from get_mbr_from_store_tests_xmin_only [OF e1 s, of 2 "mbr_of_ints 0 0 0 0"]
       get_mbr_from_store_tests_xmin_only [OF e2 s, of 2 "mbr_of_ints 0 0 0 0"]
  show ?thesis by (simp add: five stored_srid_def example_srid)
qed



text \<open>
  On such an envelope every build returns status 0, a debug build too when its
  assertions on the arguments hold: the two assertions on the envelope do not stop it.
\<close>

lemma get_mbr_from_store_returns:
  assumes env: "decoded_envelope parse_wkb box_envelope srs store store_size = Some m"
    and contract: "envelope_contract m"
    and dims: "n_dims = 2"
    and ident: "case srs of None \<Rightarrow> srid = None \<or> uint4korr store \<noteq> None
                | Some s \<Rightarrow> Some (srs_id s) = uint4korr store \<and>
                    (is_cartesian s \<or> is_geographic s)"
  shows "get_mbr_from_store dbug parse_wkb box_envelope srs store store_size n_dims mbr srid =
           Return (0, if all_nan m then full_domain else m, stored_srid srid store)"
proof -
  from env obtain g bx where
    p: "parse_wkb srs (drop 4 store) (ucast store_size - 4) True = Some (Some g)"
    and e: "box_envelope g srs
           (case srs of None \<Rightarrow> Cartesian_type
            | Some s \<Rightarrow> if is_cartesian s then Cartesian_type else Geographic_type) = Some bx"
    and m: "m = box_to_mbr (from_model srs) bx"
    by (rule decoded_envelope_SomeD)
  have full: "d_le DBL_LOWEST DBL_MAX"
    using valid_full_domain by (simp add: valid_mbr_def full_domain_def)
  show ?thesis
  proof (cases srs)
    case None
    with p e m contract dims ident full show ?thesis
      by (auto simp: get_mbr_from_store_def stored_srid_def DBUG_ASSERT_def
          envelope_contract_def all_nan_def full_domain_def from_model_cases Let_def)
  next
    case (Some s)
    with p e m contract dims ident full show ?thesis
      by (cases "is_cartesian s")
         (auto simp: get_mbr_from_store_def stored_srid_def DBUG_ASSERT_def
           envelope_contract_def all_nan_def full_domain_def from_model_cases Let_def)
  qed
qed



end
